(* ===== verification/Prelude.thy ===== *)
theory Prelude
  imports Complex_Main "HOL-Library.Sublist"
begin

text \<open>
  Shared vocabulary of the solo-panel development: the named lemma collections the
  component theories fill, type names for the JavaScript values the code handles, and
  generic lemmas on lists, association lists and options used by several components.
\<close>

named_theorems op_defs "definitions of modelled operations, unfolded by the component proofs"
named_theorems trace_simps "how the modelled operations extend an effect trace"

type_synonym js_string = string
type_synonym handle = nat

subsection \<open>Association lists with distinct keys\<close>

abbreviation keys_of :: "('k \<times> 'v) list \<Rightarrow> 'k list" where
  "keys_of xs \<equiv> map fst xs"

lemma map_of_filter_key_neq [simp]:
  "map_of (filter (\<lambda>(k', _). k' \<noteq> k) xs) = (map_of xs)(k := None)"
  by (induction xs) (auto simp: fun_eq_iff)

lemma distinct_keys_filter [intro]:
  "distinct (keys_of xs) \<Longrightarrow> distinct (keys_of (filter P xs))"
  by (induction xs) auto

lemma keys_filter_key_neq [simp]:
  "set (keys_of (filter (\<lambda>(k', _). k' \<noteq> k) xs)) = set (keys_of xs) - {k}"
  by (induction xs) auto

lemma map_option_comp_upd_Some [simp]:
  "map_option g \<circ> m(k \<mapsto> v) = (map_option g \<circ> m)(k \<mapsto> g v)"
  by (simp add: fun_eq_iff)

lemma map_option_comp_upd_None [simp]:
  "map_option g \<circ> m(k := None) = (map_option g \<circ> m)(k := None)"
  by (simp add: fun_eq_iff)

lemma the_map_option: "x \<noteq> None \<Longrightarrow> the (map_option f x) = f (the x)"
  by auto

subsection \<open>Counting in lists\<close>

lemma count_list_append_single [simp]:
  "count_list (xs @ [y]) x = count_list xs x + (if y = x then 1 else 0)"
  by (induction xs) auto

lemma filter_append_single:
  "filter P (xs @ [y]) = filter P xs @ (if P y then [y] else [])"
  by simp

end
