(* ===== verification/JsRuntime.thy ===== *)
theory JsRuntime
  imports Prelude
begin

text \<open>
  The parts of the JavaScript runtime the sources rely on, written from the ECMAScript
  semantics (they are library code, not code of the repository): the insertion-ordered
  \<open>Map\<close> the timer store keeps its jobs in; non-ASCII string literals as their UTF-8
  bytes; JavaScript numbers with their truthiness, which decides the \<open>||\<close> fallbacks of
  the code; JSON values as a response body decodes to, with member access (a
  \<open>TypeError\<close> on \<open>null\<close> and \<open>undefined\<close>), \<open>String()\<close> and
  \<open>String.prototype.includes\<close>.
\<close>

subsection \<open>Insertion-ordered maps (\<open>Map\<close>)\<close>

text \<open>
  A \<open>Map\<close> is an association list in insertion order. \<open>set\<close> on a present key
  replaces the value in place (the entry keeps its position); on a new key it appends.
  \<open>delete\<close> removes the entry; \<open>values()\<close> iterates the values in order.
\<close>

fun jmap_set :: "'k \<Rightarrow> 'v \<Rightarrow> ('k \<times> 'v) list \<Rightarrow> ('k \<times> 'v) list" where
  "jmap_set k v [] = [(k, v)]"
| "jmap_set k v ((k', v') # xs) =
     (if k' = k then (k, v) # xs else (k', v') # jmap_set k v xs)"

definition jmap_delete :: "'k \<Rightarrow> ('k \<times> 'v) list \<Rightarrow> ('k \<times> 'v) list" where
  "jmap_delete k xs = filter (\<lambda>(k', _). k' \<noteq> k) xs"

definition jmap_values :: "('k \<times> 'v) list \<Rightarrow> 'v list" where
  "jmap_values xs = map snd xs"

subsection \<open>String literals\<close>

text \<open>A string literal of the source outside ASCII, as the bytes of its UTF-8 encoding.\<close>

definition utf8 :: "nat list \<Rightarrow> string" where
  "utf8 bs = map char_of bs"

subsection \<open>Numbers and truthiness\<close>

text \<open>
  A JavaScript number is NaN, an infinity, or a finite value; the model keeps finite
  values as rationals (every finite double is one). Negative zero is identified with
  zero: the code only tests numbers for truthiness, where the two agree.
\<close>

datatype js_number = NaN | PosInf | NegInf | Fin rat

definition num_truthy :: "js_number \<Rightarrow> bool" where
  "num_truthy n = (n \<noteq> NaN \<and> n \<noteq> Fin 0)"

text \<open>\<open>a || b\<close> on numbers: \<open>a\<close> when it is truthy, else \<open>b\<close>.\<close>

definition num_or :: "js_number \<Rightarrow> js_number \<Rightarrow> js_number" where
  "num_or a b = (if num_truthy a then a else b)"

subsection \<open>Values decoded from a response body\<close>

text \<open>
  What \<^verbatim>\<open>error.response.data\<close> can hold: axios parses a JSON body, and keeps the raw
  text as a string when it does not parse. JSON numbers are kept as integers (the model
  does not cover fractional numbers in a payload); an object keeps its members in
  source order, duplicates included (\<^verbatim>\<open>JSON.parse\<close> lets the last one win).
\<close>

datatype json =
    JNull
  | JUndefined
  | JBool bool
  | JNum int
  | JStr string
  | JArr "json list"
  | JObj "(string \<times> json) list"

datatype js_error = TypeError

fun json_truthy :: "json \<Rightarrow> bool" where
  "json_truthy JNull = False"
| "json_truthy JUndefined = False"
| "json_truthy (JBool b) = b"
| "json_truthy (JNum i) = (i \<noteq> 0)"
| "json_truthy (JStr s) = (s \<noteq> [])"
| "json_truthy (JArr _) = True"
| "json_truthy (JObj _) = True"

text \<open>
  Property access \<open>v.p\<close>: a TypeError on \<open>null\<close> and \<open>undefined\<close>, the last member
  named \<open>p\<close> of an object, \<open>undefined\<close> when there is none. Primitives and arrays are
  given no properties: the code reads only \<open>message\<close> and \<open>data\<close>, which neither the
  string, number, boolean nor array prototype has.
\<close>

fun js_get :: "json \<Rightarrow> string \<Rightarrow> js_error + json" where
  "js_get JNull p = Inl TypeError"
| "js_get JUndefined p = Inl TypeError"
| "js_get (JObj kvs) p = Inr (case map_of (rev kvs) p of None \<Rightarrow> JUndefined | Some v \<Rightarrow> v)"
| "js_get _ p = Inr JUndefined"

text \<open>Decimal notation of integers, as \<open>String(n)\<close> prints an integral number.\<close>

fun nat_to_dec :: "nat \<Rightarrow> string" where
  "nat_to_dec n =
     (if n < 10 then [''0123456789'' ! n]
      else nat_to_dec (n div 10) @ [''0123456789'' ! (n mod 10)])"

declare nat_to_dec.simps [simp del]

definition int_to_dec :: "int \<Rightarrow> string" where
  "int_to_dec i = (if i < 0 then CHR ''-'' # nat_to_dec (nat (- i)) else nat_to_dec (nat i))"

text \<open>\<open>Array.prototype.join\<close> on strings.\<close>

fun js_join :: "string \<Rightarrow> string list \<Rightarrow> string" where
  "js_join sep [] = []"
| "js_join sep [x] = x"
| "js_join sep (x # xs) = x @ sep @ js_join sep xs"

text \<open>
  \<open>ToString\<close>: arrays print their elements joined by commas, \<open>null\<close> and
  \<open>undefined\<close> elements as the empty string; plain objects print as
  \<open>[object Object]\<close>.
\<close>

fun js_to_string :: "json \<Rightarrow> string"
and js_elem_strings :: "json list \<Rightarrow> string list" where
  "js_to_string JNull = ''null''"
| "js_to_string JUndefined = ''undefined''"
| "js_to_string (JBool b) = (if b then ''true'' else ''false'')"
| "js_to_string (JNum i) = int_to_dec i"
| "js_to_string (JStr s) = s"
| "js_to_string (JArr xs) = js_join '','' (js_elem_strings xs)"
| "js_to_string (JObj _) = ''[object Object]''"
| "js_elem_strings [] = []"
| "js_elem_strings (x # xs) =
     (if x = JNull \<or> x = JUndefined then [] else js_to_string x) # js_elem_strings xs"

text \<open>
  \<open>String.prototype.includes\<close>. JavaScript compares UTF-16 code units, the model
  compares bytes of the UTF-8 encoding; for an ASCII needle the two agree, since no byte
  of a multi-byte UTF-8 sequence is an ASCII byte.
\<close>

fun js_includes :: "string \<Rightarrow> string \<Rightarrow> bool" where
  "js_includes [] needle = (needle = [])"
| "js_includes (c # cs) needle = (prefix needle (c # cs) \<or> js_includes cs needle)"

subsection \<open>The map laws: refinement to HOL maps\<close>

lemma map_of_jmap_set [simp]: "map_of (jmap_set k v xs) = (map_of xs)(k \<mapsto> v)"
  by (induction xs) (auto simp: fun_eq_iff)

lemma map_of_jmap_delete [simp]: "map_of (jmap_delete k xs) = (map_of xs)(k := None)"
  by (simp add: jmap_delete_def)

lemma keys_jmap_set_eq:
  "keys_of (jmap_set k v xs) = (if k \<in> set (keys_of xs) then keys_of xs else keys_of xs @ [k])"
  by (induction xs) (auto simp: rev_image_eqI)

lemma keys_jmap_set [simp]: "fst ` set (jmap_set k v xs) = insert k (fst ` set xs)"
proof -
  have "set (keys_of (jmap_set k v xs)) = insert k (set (keys_of xs))"
    by (auto simp only: keys_jmap_set_eq split: if_splits) auto
  then show ?thesis by simp
qed

lemma keys_jmap_delete [simp]: "fst ` set (jmap_delete k xs) = fst ` set xs - {k}"
  using keys_filter_key_neq [of k xs] by (simp add: jmap_delete_def)

lemma distinct_jmap_set [intro]: "distinct (keys_of xs) \<Longrightarrow> distinct (keys_of (jmap_set k v xs))"
  by (induction xs) auto

lemma distinct_jmap_delete [intro]: "distinct (keys_of xs) \<Longrightarrow> distinct (keys_of (jmap_delete k xs))"
  by (auto simp: jmap_delete_def)

lemma jmap_set_present:
  "k \<in> set (keys_of xs) \<Longrightarrow> keys_of (jmap_set k v xs) = keys_of xs"
  by (induction xs) force+

lemma jmap_set_absent:
  "k \<notin> set (keys_of xs) \<Longrightarrow> jmap_set k v xs = xs @ [(k, v)]"
  by (induction xs) auto

lemma set_jmap_set_sub: "set (jmap_set k v xs) \<subseteq> insert (k, v) (set xs)"
  by (induction xs) (auto split: if_splits)

lemma set_jmap_delete: "set (jmap_delete k xs) = {p \<in> set xs. fst p \<noteq> k}"
  by (auto simp: jmap_delete_def)

lemma js_includes_iff_sublist: "js_includes hay needle \<longleftrightarrow> sublist needle hay"
proof (induction hay)
  case Nil
  then show ?case by simp
next
  case (Cons c cs)
  then show ?case by (auto simp: sublist_Cons_right)
qed

lemma nat_to_dec_nonempty: "nat_to_dec n \<noteq> []"
  by (subst nat_to_dec.simps) simp

lemma js_get_Inl_iff: "js_get v p = Inl e \<longleftrightarrow> v = JNull \<or> v = JUndefined"
  by (cases v; cases e) auto

end
