(* ===== verification/JsNumber.thy ===== *)
theory JsNumber
  imports JsRuntime
begin

text \<open>
  \<^verbatim>\<open>Number(v)\<close> for \<open>v\<close> a string or \<open>undefined\<close>, the conversion the timer store
  applies to its configured interval: ECMAScript's StringToNumber. A string is trimmed of
  white space; the empty string is 0; \<open>0x\<close>, \<open>0o\<close> and \<open>0b\<close> prefixes read hexadecimal,
  octal and binary integers; otherwise an optional sign precedes \<open>Infinity\<close> or a decimal
  literal with optional fraction and exponent; anything else is NaN. Finite results are
  the exact rationals the literals denote (the rounding to a double is not modelled, so
  literals beyond the double range are out of scope), and white space is the ASCII
  subset of the specification's (tab, line feed, vertical tab, form feed, carriage
  return, space).
\<close>

definition js_whitespace :: "char \<Rightarrow> bool" where
  "js_whitespace c \<longleftrightarrow> (of_char c :: nat) \<in> {9, 10, 11, 12, 13, 32}"

definition trim_ws :: "string \<Rightarrow> string" where
  "trim_ws s = rev (dropWhile js_whitespace (rev (dropWhile js_whitespace s)))"

definition digit_value :: "char \<Rightarrow> nat option" where
  "digit_value c =
     (let n = (of_char c :: nat) in
      if 48 \<le> n \<and> n \<le> 57 then Some (n - 48)
      else if 97 \<le> n \<and> n \<le> 102 then Some (n - 87)
      else if 65 \<le> n \<and> n \<le> 70 then Some (n - 55) else None)"

definition is_digit_in :: "nat \<Rightarrow> char \<Rightarrow> bool" where
  "is_digit_in b c = (case digit_value c of Some d \<Rightarrow> d < b | None \<Rightarrow> False)"

definition digits_nat :: "nat \<Rightarrow> string \<Rightarrow> nat" where
  "digits_nat b cs = foldl (\<lambda>acc c. acc * b + the (digit_value c)) 0 cs"

definition scale10 :: "rat \<Rightarrow> int \<Rightarrow> rat" where
  "scale10 q e = (if 0 \<le> e then q * 10 ^ nat e else q / 10 ^ nat (- e))"

text \<open>An exponent part: nothing, or \<open>e\<close>/\<open>E\<close>, an optional sign and digits.\<close>

definition parse_exponent :: "string \<Rightarrow> int option" where
  "parse_exponent cs =
     (case cs of
        [] \<Rightarrow> Some 0
      | c # r \<Rightarrow>
          (if c = CHR ''e'' \<or> c = CHR ''E'' then
             (let (sg, ds) = (case r of
                                x # r' \<Rightarrow> (if x = CHR ''+'' then (1, r') else if x = CHR ''-'' then (-1, r') else (1, r))
                              | [] \<Rightarrow> (1, []))
              in if ds \<noteq> [] \<and> list_all (is_digit_in 10) ds then Some (sg * int (digits_nat 10 ds)) else None)
           else None))"

definition parse_unsigned_decimal :: "string \<Rightarrow> js_number" where
  "parse_unsigned_decimal cs =
     (if cs = ''Infinity'' then PosInf
      else
        (let ip = takeWhile (is_digit_in 10) cs; r1 = dropWhile (is_digit_in 10) cs in
         case r1 of
           [] \<Rightarrow> (if ip = [] then NaN else Fin (of_nat (digits_nat 10 ip)))
         | c # r2 \<Rightarrow>
             (if c = CHR ''.'' then
                (let fp = takeWhile (is_digit_in 10) r2; r3 = dropWhile (is_digit_in 10) r2 in
                 if ip = [] \<and> fp = [] then NaN
                 else (case parse_exponent r3 of
                         None \<Rightarrow> NaN
                       | Some e \<Rightarrow> Fin (scale10 (of_nat (digits_nat 10 (ip @ fp)) / 10 ^ length fp) e)))
              else if ip = [] then NaN
              else (case parse_exponent r1 of
                      None \<Rightarrow> NaN
                    | Some e \<Rightarrow> Fin (scale10 (of_nat (digits_nat 10 ip)) e)))))"

definition negate_num :: "js_number \<Rightarrow> js_number" where
  "negate_num n = (case n of NaN \<Rightarrow> NaN | PosInf \<Rightarrow> NegInf | NegInf \<Rightarrow> PosInf | Fin q \<Rightarrow> Fin (- q))"

definition parse_decimal :: "string \<Rightarrow> js_number" where
  "parse_decimal cs =
     (case cs of
        [] \<Rightarrow> NaN
      | c # r \<Rightarrow>
          (if c = CHR ''+'' then parse_unsigned_decimal r
           else if c = CHR ''-'' then negate_num (parse_unsigned_decimal r)
           else parse_unsigned_decimal cs))"

definition non_decimal_base :: "char \<Rightarrow> nat" where
  "non_decimal_base c =
     (if c = CHR ''x'' \<or> c = CHR ''X'' then 16
      else if c = CHR ''o'' \<or> c = CHR ''O'' then 8
      else if c = CHR ''b'' \<or> c = CHR ''B'' then 2 else 0)"

definition parse_non_decimal :: "string \<Rightarrow> js_number option" where
  "parse_non_decimal cs =
     (case cs of
        c0 # c1 # ds \<Rightarrow>
          (if c0 = CHR ''0'' \<and> non_decimal_base c1 \<noteq> 0 then
             Some (if ds \<noteq> [] \<and> list_all (is_digit_in (non_decimal_base c1)) ds
                   then Fin (of_nat (digits_nat (non_decimal_base c1) ds)) else NaN)
           else None)
      | _ \<Rightarrow> None)"

definition string_to_number :: "string \<Rightarrow> js_number" where
  "string_to_number s =
     (let t = trim_ws s in
      if t = [] then Fin 0
      else (case parse_non_decimal t of Some n \<Rightarrow> n | None \<Rightarrow> parse_decimal t))"

text \<open>\<open>Number(v)\<close>: \<open>undefined\<close> is NaN.\<close>

definition js_Number :: "string option \<Rightarrow> js_number" where
  "js_Number v = (case v of None \<Rightarrow> NaN | Some s \<Rightarrow> string_to_number s)"

subsection \<open>Decimal digits\<close>

lemma dec_digit_cases: "d < 10 \<Longrightarrow> d \<in> {0, 1, 2, 3, 4, 5, 6, 7, 8, 9::nat}"
  by auto

lemma dec_digit_value: "d < 10 \<Longrightarrow> digit_value (''0123456789'' ! d) = Some d"
  using dec_digit_cases [of d] by (auto simp: digit_value_def)

lemma dec_digit_is_digit: "d < 10 \<Longrightarrow> is_digit_in 10 (''0123456789'' ! d)"
  by (simp add: is_digit_in_def dec_digit_value)

lemma dec_digit_not_ws: "d < 10 \<Longrightarrow> \<not> js_whitespace (''0123456789'' ! d)"
  using dec_digit_cases [of d] by (auto simp: js_whitespace_def)

lemma dec_digit_nonzero: "0 < d \<Longrightarrow> d < 10 \<Longrightarrow> ''0123456789'' ! d \<noteq> CHR ''0''"
  using dec_digit_cases [of d] by auto

lemma nat_to_dec_step:
  "\<not> n < 10 \<Longrightarrow> nat_to_dec n = nat_to_dec (n div 10) @ [''0123456789'' ! (n mod 10)]"
  by (subst nat_to_dec.simps) simp

lemma nat_to_dec_small: "n < 10 \<Longrightarrow> nat_to_dec n = [''0123456789'' ! n]"
  by (subst nat_to_dec.simps) simp

lemma nat_to_dec_digits: "list_all (is_digit_in 10) (nat_to_dec n)"
proof (induction n rule: nat_to_dec.induct)
  case (1 n)
  then show ?case
    by (cases "n < 10") (simp_all add: nat_to_dec_small nat_to_dec_step dec_digit_is_digit)
qed

lemma nat_to_dec_no_ws: "list_all (\<lambda>c. \<not> js_whitespace c) (nat_to_dec n)"
proof (induction n rule: nat_to_dec.induct)
  case (1 n)
  then show ?case
    by (cases "n < 10") (simp_all add: nat_to_dec_small nat_to_dec_step dec_digit_not_ws)
qed

lemma digits_nat_snoc: "digits_nat b (xs @ [c]) = digits_nat b xs * b + the (digit_value c)"
  by (simp add: digits_nat_def)

lemma digits_nat_nat_to_dec: "digits_nat 10 (nat_to_dec n) = n"
proof (induction n rule: nat_to_dec.induct)
  case (1 n)
  show ?case
  proof (cases "n < 10")
    case True
    then show ?thesis by (simp add: nat_to_dec_small digits_nat_def dec_digit_value)
  next
    case False
    with "1.IH" have "digits_nat 10 (nat_to_dec (n div 10)) = n div 10" by simp
    with False show ?thesis by (simp add: nat_to_dec_step digits_nat_snoc dec_digit_value)
  qed
qed

lemma nat_to_dec_hd: "0 < n \<Longrightarrow> hd (nat_to_dec n) \<noteq> CHR ''0''"
proof (induction n rule: nat_to_dec.induct)
  case (1 n)
  show ?case
  proof (cases "n < 10")
    case True
    have "''0123456789'' ! n \<noteq> CHR ''0''" using "1.prems" True by (rule dec_digit_nonzero)
    then show ?thesis by (simp add: nat_to_dec_small [OF True])
  next
    case False
    then have "0 < n div 10" by simp
    with False "1.IH" have "hd (nat_to_dec (n div 10)) \<noteq> CHR ''0''" by simp
    with False show ?thesis by (simp add: nat_to_dec_step nat_to_dec_nonempty)
  qed
qed

subsection \<open>Reading back a printed integer\<close>

lemma dropWhile_none: "list_all (\<lambda>c. \<not> P c) xs \<Longrightarrow> dropWhile P xs = xs"
  by (cases xs) simp_all

lemma trim_ws_id: "list_all (\<lambda>c. \<not> js_whitespace c) s \<Longrightarrow> trim_ws s = s"
  by (simp add: trim_ws_def dropWhile_none)

lemma parse_non_decimal_hd: "hd cs \<noteq> CHR ''0'' \<Longrightarrow> parse_non_decimal cs = None"
  by (cases cs rule: remdups_adj.cases) (simp_all add: parse_non_decimal_def)

lemma parse_non_decimal_nat_to_dec: "parse_non_decimal (nat_to_dec n) = None"
proof (cases "n = 0")
  case True
  then show ?thesis by (simp add: nat_to_dec_small parse_non_decimal_def)
next
  case False
  then show ?thesis by (simp add: parse_non_decimal_hd nat_to_dec_hd)
qed

lemma digit_not_sign: "is_digit_in 10 c \<Longrightarrow> c \<noteq> CHR ''+'' \<and> c \<noteq> CHR ''-'' \<and> c \<noteq> CHR ''I''"
  by (auto simp: is_digit_in_def digit_value_def)

lemma unsigned_nat_to_dec: "parse_unsigned_decimal (nat_to_dec n) = Fin (of_nat n)"
proof -
  have all: "list_all (is_digit_in 10) (nat_to_dec n)" by (rule nat_to_dec_digits)
  then have inf: "nat_to_dec n \<noteq> ''Infinity''" by (auto dest: digit_not_sign)
  have t: "takeWhile (is_digit_in 10) (nat_to_dec n) = nat_to_dec n"
    using all by (simp add: list_all_iff)
  have d: "dropWhile (is_digit_in 10) (nat_to_dec n) = []"
    using all by (simp add: list_all_iff)
  show ?thesis
    unfolding parse_unsigned_decimal_def Let_def t d
    using inf by (simp add: nat_to_dec_nonempty digits_nat_nat_to_dec)
qed

lemma decimal_nat_to_dec: "parse_decimal (nat_to_dec n) = Fin (of_nat n)"
proof (cases "nat_to_dec n")
  case Nil
  then show ?thesis using nat_to_dec_nonempty by simp
next
  case (Cons c r)
  then have "is_digit_in 10 c" using nat_to_dec_digits [of n] by simp
  then have "c \<noteq> CHR ''+'' \<and> c \<noteq> CHR ''-''" by (simp add: digit_not_sign)
  with Cons have "parse_decimal (nat_to_dec n) = parse_unsigned_decimal (nat_to_dec n)"
    by (simp add: parse_decimal_def)
  then show ?thesis by (simp add: unsigned_nat_to_dec)
qed

lemma string_to_number_int_to_dec: "string_to_number (int_to_dec i) = Fin (of_int i)"
proof (cases "i < 0")
  case True
  let ?m = "nat (- i)"
  have ws: "list_all (\<lambda>c. \<not> js_whitespace c) (CHR ''-'' # nat_to_dec ?m)"
    using nat_to_dec_no_ws [of ?m] by (simp add: js_whitespace_def)
  have "parse_non_decimal (CHR ''-'' # nat_to_dec ?m) = None" by (simp add: parse_non_decimal_hd)
  moreover have "of_int i = - (of_nat ?m :: rat)" using True by simp
  ultimately show ?thesis
    using True trim_ws_id [OF ws]
    by (simp add: string_to_number_def int_to_dec_def parse_decimal_def unsigned_nat_to_dec negate_num_def)
next
  case False
  then have "of_int i = (of_nat (nat i) :: rat)" by simp
  then show ?thesis
    using False trim_ws_id [OF nat_to_dec_no_ws [of "nat i"]]
    by (simp add: string_to_number_def int_to_dec_def parse_non_decimal_nat_to_dec decimal_nat_to_dec
        nat_to_dec_nonempty)
qed

text \<open>The parser's definitions, for evaluating \<open>Number\<close> on literal strings by \<open>simp\<close>.\<close>

lemmas js_number_defs =
  js_Number_def string_to_number_def trim_ws_def js_whitespace_def parse_non_decimal_def
  non_decimal_base_def parse_decimal_def negate_num_def parse_unsigned_decimal_def
  parse_exponent_def digits_nat_def is_digit_in_def digit_value_def scale10_def

end
