(* ===== verification/GlobalTimer.thy ===== *)
theory GlobalTimer
  imports JsNumber
begin

text \<open>
  The shared polling scheduler of \<^verbatim>\<open>src/src/store/timer.ts\<close> (the Pinia store
  \<^verbatim>\<open>globalTimer\<close>). Its closure variables \<^verbatim>\<open>intervalMs\<close>, \<^verbatim>\<open>timerId\<close>,
  \<^verbatim>\<open>jobs\<close> and \<^verbatim>\<open>subscribers\<close> are fields of a record, together with the part of
  the browser the store touches: the live intervals of \<^verbatim>\<open>window.setInterval\<close>, the
  next interval handle, and a trace of observable effects (job invocations, console
  output, uncaught errors, unhandled rejections, interval creation and clearing).
  Every function of the store is one definition; the browser delivers events (a caller
  registers or unregisters a job, a component writes the exported ref, or a live
  interval fires) to a step function.
\<close>

subsection \<open>Jobs, outcomes and effects\<close>

text \<open>
  A job function \<open>fn: () => Promise<void> | void\<close> is a value of a type variable
  \<open>'f\<close>. What one call of it does is its outcome: it returns (a value, or a promise the
  scheduler never looks at again), it throws synchronously, or it returns a promise that
  rejects. The outcome of each call is supplied by the event that causes it.
\<close>

datatype js_exn = JsExn string

datatype call_outcome = Completes | Throws js_exn | Rejects js_exn

datatype 'f effect =
    Invoke 'f
  | ConsoleLog string
  | ConsoleError string js_exn
  | UncaughtError js_exn
  | UnhandledRejection js_exn
  | SetIntervalFx handle js_number
  | ClearIntervalFx handle

record 'f timer_job =
  job_id :: js_string
  job_fn :: 'f

record 'f timer_state =
  intervalMs :: js_number
  timerId :: "handle option"
  jobs :: "(js_string \<times> 'f timer_job) list"
  subscribers :: int
  next_handle :: handle
  live_intervals :: "(handle \<times> js_number) list"
  trace :: "'f effect list"

subsection \<open>The browser operations the store calls\<close>

definition emit :: "'f effect \<Rightarrow> 'f timer_state \<Rightarrow> 'f timer_state" where
  "emit x s = s\<lparr>trace := trace s @ [x]\<rparr>"

definition set_interval :: "js_number \<Rightarrow> 'f timer_state \<Rightarrow> handle \<times> 'f timer_state" where
  "set_interval d s =
     (next_handle s,
      emit (SetIntervalFx (next_handle s) d)
        (s\<lparr>next_handle := Suc (next_handle s),
           live_intervals := live_intervals s @ [(next_handle s, d)]\<rparr>))"

definition clear_interval :: "handle \<Rightarrow> 'f timer_state \<Rightarrow> 'f timer_state" where
  "clear_interval h s =
     emit (ClearIntervalFx h) (s\<lparr>live_intervals := filter (\<lambda>(h', _). h' \<noteq> h) (live_intervals s)\<rparr>)"

text \<open>
  Calling a job function: the call is observed; a promise that rejects has no handler
  attached by the store, so the runtime reports it as an unhandled rejection. A
  synchronous throw is left to the caller, which decides whether it is caught.
\<close>

definition call_fn :: "'f \<Rightarrow> call_outcome \<Rightarrow> 'f timer_state \<Rightarrow> 'f timer_state" where
  "call_fn f out s =
     (let s' = emit (Invoke f) s in
      case out of Rejects e \<Rightarrow> emit (UnhandledRejection e) s' | _ \<Rightarrow> s')"

subsection \<open>The store's functions\<close>

definition startTimer :: "'f timer_state \<Rightarrow> 'f timer_state" where
  "startTimer s =
     (if timerId s = None then
        (let (h, s') = set_interval (intervalMs s) s
         in emit (ConsoleLog ''[GlobalTimer] Started'') (s'\<lparr>timerId := Some h\<rparr>))
      else s)"

definition stopTimer :: "'f timer_state \<Rightarrow> 'f timer_state" where
  "stopTimer s =
     (case timerId s of
        None \<Rightarrow> s
      | Some h \<Rightarrow> emit (ConsoleLog ''[GlobalTimer] Stopped'') ((clear_interval h s)\<lparr>timerId := None\<rparr>))"

definition addSubscriber :: "'f timer_state \<Rightarrow> 'f timer_state" where
  "addSubscriber s =
     (let s' = s\<lparr>subscribers := subscribers s + 1\<rparr>
      in if subscribers s' = 1 then startTimer s' else s')"

definition removeSubscriber :: "'f timer_state \<Rightarrow> 'f timer_state" where
  "removeSubscriber s =
     (let s' = s\<lparr>subscribers := subscribers s - 1\<rparr>
      in if subscribers s' \<le> 0 then stopTimer (s'\<lparr>subscribers := 0\<rparr>) else s')"

text \<open>
  \<^verbatim>\<open>registerJob\<close>: store the job, call it at once inside \<^verbatim>\<open>try\<close>; a
  synchronous throw is caught and logged; \<^verbatim>\<open>finally\<close> adds the subscriber. A
  rejected promise escapes the \<^verbatim>\<open>try\<close> (it is not awaited).
\<close>

definition registerJob :: "js_string \<Rightarrow> 'f \<Rightarrow> call_outcome \<Rightarrow> 'f timer_state \<Rightarrow> 'f timer_state" where
  "registerJob i f out s =
     (let s1 = s\<lparr>jobs := jmap_set i \<lparr>job_id = i, job_fn = f\<rparr> (jobs s)\<rparr>;
          s2 = call_fn f out s1;
          s3 = (case out of
                  Throws e \<Rightarrow> emit (ConsoleError ''Job immediate execution error:'' e) s2
                | _ \<Rightarrow> s2)
      in addSubscriber s3)"

definition unregisterJob :: "js_string \<Rightarrow> 'f timer_state \<Rightarrow> 'f timer_state" where
  "unregisterJob i s = removeSubscriber (s\<lparr>jobs := jmap_delete i (jobs s)\<rparr>)"

text \<open>
  The interval callback: \<^verbatim>\<open>for (const job of jobs.values()) job.fn();\<close> with no
  \<^verbatim>\<open>try\<close>. A synchronous throw leaves the loop and the callback; the browser reports it
  as an uncaught error and keeps the interval. The outcome of each call comes from an
  oracle on the job's id.
\<close>

fun tick_jobs :: "(js_string \<Rightarrow> call_outcome) \<Rightarrow> 'f timer_job list \<Rightarrow> 'f timer_state \<Rightarrow> 'f timer_state" where
  "tick_jobs ora [] s = s"
| "tick_jobs ora (j # js) s =
     (case ora (job_id j) of
        Throws e \<Rightarrow> emit (UncaughtError e) (call_fn (job_fn j) (Throws e) s)
      | out \<Rightarrow> tick_jobs ora js (call_fn (job_fn j) out s))"

definition timer_callback :: "(js_string \<Rightarrow> call_outcome) \<Rightarrow> 'f timer_state \<Rightarrow> 'f timer_state" where
  "timer_callback ora s = tick_jobs ora (jmap_values (jobs s)) s"

subsection \<open>Events and runs\<close>

text \<open>
  The events: a caller registers or unregisters a job, a component writes the exported
  ref \<^verbatim>\<open>intervalMs\<close>, or the browser fires a live interval (the browser runs the
  callback of interval \<open>h\<close> only while \<open>h\<close> is live).
\<close>

datatype 'f event =
    Register js_string 'f call_outcome
  | Unregister js_string
  | WriteInterval js_number
  | Fire handle "js_string \<Rightarrow> call_outcome"

fun timer_step :: "'f timer_state \<Rightarrow> 'f event \<Rightarrow> 'f timer_state" where
  "timer_step s (Register i f out) = registerJob i f out s"
| "timer_step s (Unregister i) = unregisterJob i s"
| "timer_step s (WriteInterval d) = s\<lparr>intervalMs := d\<rparr>"
| "timer_step s (Fire h ora) =
     (if h \<in> set (keys_of (live_intervals s)) then timer_callback ora s else s)"

definition run_events :: "'f timer_state \<Rightarrow> 'f event list \<Rightarrow> 'f timer_state" where
  "run_events s es = foldl timer_step s es"

text \<open>
  The store's interval: \<^verbatim>\<open>Number(import.meta.env.VITE_GLOBAL_TIMER_INTERVAL) || 15000\<close>,
  the variable being a string or undefined.
\<close>

definition intervalMs_of_env :: "string option \<Rightarrow> js_number" where
  "intervalMs_of_env v = num_or (js_Number v) (Fin 15000)"

definition init_timer :: "js_number \<Rightarrow> 'f timer_state" where
  "init_timer d =
     \<lparr>intervalMs = d, timerId = None, jobs = [], subscribers = 0, next_handle = 1,
      live_intervals = [], trace = []\<rparr>"

definition store_init :: "string option \<Rightarrow> 'f timer_state" where
  "store_init env = init_timer (intervalMs_of_env env)"

subsection \<open>Effects of a tick, as a list\<close>

text \<open>
  The effects one run of the interval callback appends, computed without the state:
  each job in turn is invoked; a rejection is reported and the loop goes on; a
  synchronous throw ends the loop with an uncaught error.
\<close>

fun tick_effects :: "(js_string \<Rightarrow> call_outcome) \<Rightarrow> 'f timer_job list \<Rightarrow> 'f effect list" where
  "tick_effects ora [] = []"
| "tick_effects ora (j # js) =
     Invoke (job_fn j) #
       (case ora (job_id j) of
          Throws e \<Rightarrow> [UncaughtError e]
        | Rejects e \<Rightarrow> UnhandledRejection e # tick_effects ora js
        | Completes \<Rightarrow> tick_effects ora js)"

text \<open>The job functions a trace shows invoked, in order.\<close>

fun invoked :: "'f effect list \<Rightarrow> 'f list" where
  "invoked [] = []"
| "invoked (Invoke f # xs) = f # invoked xs"
| "invoked (_ # xs) = invoked xs"

text \<open>What the immediate call in \<^verbatim>\<open>registerJob\<close> appends to the trace.\<close>

definition register_effects :: "'f \<Rightarrow> call_outcome \<Rightarrow> 'f effect list" where
  "register_effects f out =
     Invoke f #
       (case out of
          Throws e \<Rightarrow> [ConsoleError ''Job immediate execution error:'' e]
        | Rejects e \<Rightarrow> [UnhandledRejection e]
        | Completes \<Rightarrow> [])"

text \<open>
  A declarative reference for one tick: the jobs before the first that throws each run
  (with their rejections), then the throwing one and its uncaught error.
\<close>

fun is_throw :: "call_outcome \<Rightarrow> bool" where
  "is_throw (Throws _) = True"
| "is_throw _ = False"

definition tick_reference :: "(js_string \<Rightarrow> call_outcome) \<Rightarrow> 'f timer_job list \<Rightarrow> 'f effect list" where
  "tick_reference ora js =
     (let ran = takeWhile (\<lambda>j. \<not> is_throw (ora (job_id j))) js;
          rest = dropWhile (\<lambda>j. \<not> is_throw (ora (job_id j))) js
      in concat (map (\<lambda>j. Invoke (job_fn j) #
                          (case ora (job_id j) of Rejects e \<Rightarrow> [UnhandledRejection e] | _ \<Rightarrow> [])) ran) @
         (case rest of
            [] \<Rightarrow> []
          | j # _ \<Rightarrow> (case ora (job_id j) of Throws e \<Rightarrow> [Invoke (job_fn j), UncaughtError e] | _ \<Rightarrow> [])))"

text \<open>The intervals a run has created, and the registrations among its events.\<close>

fun is_set_interval :: "'f effect \<Rightarrow> bool" where
  "is_set_interval (SetIntervalFx _ _) = True"
| "is_set_interval _ = False"

fun is_register :: "'f event \<Rightarrow> bool" where
  "is_register (Register _ _ _) = True"
| "is_register _ = False"

definition intervals_created :: "'f timer_state \<Rightarrow> nat" where
  "intervals_created s = length (filter is_set_interval (trace s))"

subsection \<open>The invariant of the store\<close>

text \<open>
  The counter is never negative; a timer handle is held exactly when the counter is
  positive; the only live interval of the store is the held one (its delay is the value
  \<open>intervalMs\<close> had when it was started), with a handle below the next fresh one; the job map has distinct keys
  and each job is filed under its own id.
\<close>

definition timer_inv :: "'f timer_state \<Rightarrow> bool" where
  "timer_inv s \<longleftrightarrow>
     0 \<le> subscribers s \<and>
     (timerId s = None \<longleftrightarrow> subscribers s = 0) \<and>
     keys_of (live_intervals s) = (case timerId s of None \<Rightarrow> [] | Some h \<Rightarrow> [h]) \<and>
     (case timerId s of None \<Rightarrow> True | Some h \<Rightarrow> h < next_handle s) \<and>
     distinct (keys_of (jobs s)) \<and>
     list_all (\<lambda>(k, j). job_id j = k) (jobs s)"

inductive timer_reach :: "js_number \<Rightarrow> 'f timer_state \<Rightarrow> bool" for d where
  reach_init: "timer_reach d (init_timer d)"
| reach_step: "timer_reach d s \<Longrightarrow> timer_reach d (timer_step s e)"

subsection \<open>The contract of the scheduler\<close>

text \<open>
  What the spec promises, without handles, traces or insertion order: the registered
  actions by id, the net number of registrations (an unregistration never takes it
  below zero) and whether the shared timer runs. The counter of the spec is \<open>nat\<close>, so
  that the clamp at zero is the truncating subtraction.
\<close>

record 'f sched_spec =
  spec_jobs :: "js_string \<rightharpoonup> 'f"
  spec_count :: nat
  spec_running :: bool

fun spec_step :: "'f sched_spec \<Rightarrow> 'f event \<Rightarrow> 'f sched_spec" where
  "spec_step a (Register i f _) =
     a\<lparr>spec_jobs := (spec_jobs a)(i \<mapsto> f), spec_count := Suc (spec_count a), spec_running := True\<rparr>"
| "spec_step a (Unregister i) =
     a\<lparr>spec_jobs := (spec_jobs a)(i := None), spec_count := spec_count a - 1,
       spec_running := (0 < spec_count a - 1)\<rparr>"
| "spec_step a (WriteInterval _) = a"
| "spec_step a (Fire _ _) = a"

fun net_count :: "nat \<Rightarrow> 'f event list \<Rightarrow> nat" where
  "net_count c [] = c"
| "net_count c (Register _ _ _ # es) = net_count (Suc c) es"
| "net_count c (Unregister _ # es) = net_count (c - 1) es"
| "net_count c (WriteInterval _ # es) = net_count c es"
| "net_count c (Fire _ _ # es) = net_count c es"

definition abs_timer :: "'f timer_state \<Rightarrow> 'f sched_spec" where
  "abs_timer s =
     \<lparr>spec_jobs = map_option job_fn \<circ> map_of (jobs s), spec_count = nat (subscribers s),
      spec_running = (timerId s \<noteq> None)\<rparr>"

definition spec_init :: "'f sched_spec" where
  "spec_init = \<lparr>spec_jobs = Map.empty, spec_count = 0, spec_running = False\<rparr>"

lemmas timer_ops [op_defs] =
  emit_def set_interval_def clear_interval_def call_fn_def startTimer_def stopTimer_def
  addSubscriber_def removeSubscriber_def registerJob_def unregisterJob_def timer_callback_def

subsection \<open>Characteristic equations\<close>

lemma invoked_append [simp]: "invoked (xs @ ys) = invoked xs @ invoked ys"
  by (induction xs rule: invoked.induct) auto

lemma call_fn_eq [trace_simps]:
  "call_fn f out s =
     s\<lparr>trace := trace s @ Invoke f # (case out of Rejects e \<Rightarrow> [UnhandledRejection e] | _ \<Rightarrow> [])\<rparr>"
  by (cases out) (simp_all add: call_fn_def emit_def)

lemma startTimer_idle [trace_simps]:
  "timerId s = None \<Longrightarrow>
   startTimer s =
     s\<lparr>timerId := Some (next_handle s), next_handle := Suc (next_handle s),
       live_intervals := live_intervals s @ [(next_handle s, intervalMs s)],
       trace := trace s @ [SetIntervalFx (next_handle s) (intervalMs s),
                           ConsoleLog ''[GlobalTimer] Started'']\<rparr>"
  by (simp add: startTimer_def set_interval_def emit_def)

lemma startTimer_running [trace_simps]: "timerId s = Some h \<Longrightarrow> startTimer s = s"
  by (simp add: startTimer_def)

lemma stopTimer_idle [trace_simps]: "timerId s = None \<Longrightarrow> stopTimer s = s"
  by (simp add: stopTimer_def)

lemma stopTimer_running [trace_simps]:
  "timerId s = Some h \<Longrightarrow>
   stopTimer s =
     s\<lparr>timerId := None, live_intervals := filter (\<lambda>(h', _). h' \<noteq> h) (live_intervals s),
       trace := trace s @ [ClearIntervalFx h, ConsoleLog ''[GlobalTimer] Stopped'']\<rparr>"
  by (simp add: stopTimer_def clear_interval_def emit_def)

lemma registerJob_eq:
  "registerJob i f out s =
     addSubscriber (s\<lparr>jobs := jmap_set i \<lparr>job_id = i, job_fn = f\<rparr> (jobs s),
                      trace := trace s @ register_effects f out\<rparr>)"
  by (cases out) (simp_all add: registerJob_def call_fn_def emit_def register_effects_def)

lemma tick_jobs_eq:
  "tick_jobs ora js s = s\<lparr>trace := trace s @ tick_effects ora js\<rparr>"
proof (induction js arbitrary: s)
  case Nil
  then show ?case by simp
next
  case (Cons j js)
  then show ?case
    by (simp add: call_fn_eq emit_def split: call_outcome.split)
qed

lemma timer_callback_eq:
  "timer_callback ora s = s\<lparr>trace := trace s @ tick_effects ora (jmap_values (jobs s))\<rparr>"
  by (simp add: timer_callback_def tick_jobs_eq)

text \<open>Frame facts: the fields an operation leaves alone.\<close>

lemma startTimer_frame [simp]:
  "jobs (startTimer s) = jobs s" "subscribers (startTimer s) = subscribers s"
  "intervalMs (startTimer s) = intervalMs s"
  by (simp_all add: startTimer_def set_interval_def emit_def split: prod.split)

lemma stopTimer_frame [simp]:
  "jobs (stopTimer s) = jobs s" "subscribers (stopTimer s) = subscribers s"
  "intervalMs (stopTimer s) = intervalMs s" "next_handle (stopTimer s) = next_handle s"
  by (simp_all add: stopTimer_def clear_interval_def emit_def split: option.split)

lemma invoked_startTimer [simp]: "invoked (trace (startTimer s)) = invoked (trace s)"
  by (cases "timerId s") (simp_all add: startTimer_idle startTimer_running)

lemma invoked_stopTimer [simp]: "invoked (trace (stopTimer s)) = invoked (trace s)"
  by (cases "timerId s") (simp_all add: stopTimer_idle stopTimer_running)

lemma addSubscriber_frame [simp]:
  "jobs (addSubscriber s) = jobs s" "subscribers (addSubscriber s) = subscribers s + 1"
  "intervalMs (addSubscriber s) = intervalMs s"
  "invoked (trace (addSubscriber s)) = invoked (trace s)"
  by (simp_all add: addSubscriber_def Let_def)

lemma removeSubscriber_frame [simp]:
  "jobs (removeSubscriber s) = jobs s"
  "subscribers (removeSubscriber s) = max 0 (subscribers s - 1)"
  "intervalMs (removeSubscriber s) = intervalMs s"
  "invoked (trace (removeSubscriber s)) = invoked (trace s)"
  by (simp_all add: removeSubscriber_def Let_def)

lemma registerJob_frame [simp]:
  "jobs (registerJob i f out s) = jmap_set i \<lparr>job_id = i, job_fn = f\<rparr> (jobs s)"
  "subscribers (registerJob i f out s) = subscribers s + 1"
  "intervalMs (registerJob i f out s) = intervalMs s"
  "invoked (trace (registerJob i f out s)) = invoked (trace s) @ [f]"
  by (simp_all add: registerJob_eq register_effects_def split: call_outcome.split)

lemma unregisterJob_frame [simp]:
  "jobs (unregisterJob i s) = jmap_delete i (jobs s)"
  "subscribers (unregisterJob i s) = max 0 (subscribers s - 1)"
  "intervalMs (unregisterJob i s) = intervalMs s"
  "invoked (trace (unregisterJob i s)) = invoked (trace s)"
  by (simp_all add: unregisterJob_def)

subsection \<open>Preservation of the invariant\<close>

lemma list_all_jmap_set_job:
  "list_all (\<lambda>(k, j). job_id j = k) xs \<Longrightarrow>
   list_all (\<lambda>(k, j). job_id j = k) (jmap_set i \<lparr>job_id = i, job_fn = f\<rparr> xs)"
  using set_jmap_set_sub [of i "\<lparr>job_id = i, job_fn = f\<rparr>" xs]
  by (fastforce simp: list_all_iff)

lemma list_all_jmap_delete_job:
  "list_all P xs \<Longrightarrow> list_all P (jmap_delete i xs)"
  by (simp add: list_all_iff set_jmap_delete)

lemma timer_inv_init: "timer_inv (init_timer d)"
  by (simp add: timer_inv_def init_timer_def)

lemma timer_inv_jobs_update:
  "timer_inv s \<Longrightarrow> distinct (keys_of js) \<Longrightarrow> list_all (\<lambda>(k, j). job_id j = k) js \<Longrightarrow>
   timer_inv (s\<lparr>jobs := js, trace := tr\<rparr>)"
  by (simp add: timer_inv_def split: option.splits)

lemma addSubscriber_inv: "timer_inv s \<Longrightarrow> timer_inv (addSubscriber s)"
proof (cases "timerId s")
  case None
  moreover assume "timer_inv s"
  ultimately show ?thesis
    by (simp add: timer_inv_def addSubscriber_def startTimer_idle)
next
  case (Some h)
  moreover assume "timer_inv s"
  ultimately show ?thesis
    by (auto simp: timer_inv_def addSubscriber_def Let_def)
qed

lemma removeSubscriber_inv: "timer_inv s \<Longrightarrow> timer_inv (removeSubscriber s)"
proof (cases "timerId s")
  case None
  moreover assume "timer_inv s"
  ultimately show ?thesis
    by (simp add: timer_inv_def removeSubscriber_def stopTimer_idle)
next
  case (Some h)
  moreover assume "timer_inv s"
  ultimately show ?thesis
    by (auto simp: timer_inv_def removeSubscriber_def Let_def stopTimer_running)
qed

lemma registerJob_inv: "timer_inv s \<Longrightarrow> timer_inv (registerJob i f out s)"
  unfolding registerJob_eq
  by (intro addSubscriber_inv timer_inv_jobs_update)
     (auto simp: timer_inv_def intro: list_all_jmap_set_job)

lemma unregisterJob_inv: "timer_inv s \<Longrightarrow> timer_inv (unregisterJob i s)"
proof -
  assume "timer_inv s"
  then have "timer_inv (s\<lparr>jobs := jmap_delete i (jobs s), trace := trace s\<rparr>)"
    by (intro timer_inv_jobs_update) (auto simp: timer_inv_def intro: list_all_jmap_delete_job)
  then show ?thesis
    unfolding unregisterJob_def by (simp add: removeSubscriber_inv)
qed

lemma timer_callback_inv: "timer_inv s \<Longrightarrow> timer_inv (timer_callback ora s)"
  by (simp add: timer_callback_eq timer_inv_def split: option.splits)

lemma write_interval_inv: "timer_inv s \<Longrightarrow> timer_inv (s\<lparr>intervalMs := d\<rparr>)"
  by (simp add: timer_inv_def split: option.splits)

lemma timer_step_inv: "timer_inv s \<Longrightarrow> timer_inv (timer_step s e)"
  by (cases e) (simp_all add: registerJob_inv unregisterJob_inv timer_callback_inv write_interval_inv)

lemma run_events_snoc [simp]: "run_events s (es @ [e]) = timer_step (run_events s es) e"
  by (simp add: run_events_def)

lemma run_events_Cons [simp]: "run_events s (e # es) = run_events (timer_step s e) es"
  by (simp add: run_events_def)

lemma run_events_Nil [simp]: "run_events s [] = s"
  by (simp add: run_events_def)

lemma run_events_inv: "timer_inv s \<Longrightarrow> timer_inv (run_events s es)"
  by (induction es arbitrary: s) (simp_all add: timer_step_inv)

lemma timer_reach_inv: "timer_reach d s \<Longrightarrow> timer_inv s"
proof (induction rule: timer_reach.induct)
  case reach_init
  show ?case by (rule timer_inv_init)
next
  case (reach_step s e)
  from reach_step.IH show ?case by (rule timer_step_inv)
qed

lemma timer_reach_run_events: "timer_reach d (run_events (init_timer d) es)"
proof (induction es rule: rev_induct)
  case Nil
  show ?case by (simp add: timer_reach.reach_init)
next
  case (snoc e es)
  then show ?case by (simp add: timer_reach.reach_step)
qed

lemma timer_reach_iff_run: "timer_reach d s \<longleftrightarrow> (\<exists>es. s = run_events (init_timer d) es)"
proof
  assume "timer_reach d s"
  then show "\<exists>es. s = run_events (init_timer d) es"
  proof (induction rule: timer_reach.induct)
    case reach_init
    have "init_timer d = run_events (init_timer d) []" by simp
    then show ?case by blast
  next
    case (reach_step s e)
    then obtain es where "s = run_events (init_timer d) es" by blast
    then have "timer_step s e = run_events (init_timer d) (es @ [e])" by simp
    then show ?case by blast
  qed
next
  assume "\<exists>es. s = run_events (init_timer d) es"
  then show "timer_reach d s" using timer_reach_run_events by blast
qed

subsection \<open>Refinement of the contract\<close>

lemma timer_running_iff:
  "timer_inv s \<Longrightarrow> (timerId s \<noteq> None) = (0 < subscribers s)"
  by (auto simp: timer_inv_def)

lemma registerJob_abs:
  assumes "timer_inv s"
  shows "abs_timer (registerJob i f out s) = spec_step (abs_timer s) (Register i f out)"
proof -
  have "timer_inv (registerJob i f out s)" using assms by (rule registerJob_inv)
  then have "timerId (registerJob i f out s) \<noteq> None"
    using assms by (simp add: timer_running_iff timer_inv_def)
  moreover have "0 \<le> subscribers s" using assms by (simp add: timer_inv_def)
  then have "nat (subscribers s + 1) = Suc (nat (subscribers s))" by arith
  ultimately show ?thesis
    by (simp add: abs_timer_def registerJob_eq)
qed

lemma unregisterJob_abs:
  assumes "timer_inv s"
  shows "abs_timer (unregisterJob i s) = spec_step (abs_timer s) (Unregister i)"
proof -
  have inv': "timer_inv (unregisterJob i s)" using assms by (rule unregisterJob_inv)
  have sub: "subscribers (unregisterJob i s) = max 0 (subscribers s - 1)"
    by (simp add: unregisterJob_def)
  have sub0: "0 \<le> subscribers s" using assms by (simp add: timer_inv_def)
  then have "nat (max 0 (subscribers s - 1)) = nat (subscribers s) - 1" by arith
  moreover have "(0 < max 0 (subscribers s - 1)) = (0 < nat (subscribers s) - 1)"
    using sub0 by arith
  then have "(timerId (unregisterJob i s) \<noteq> None) = (0 < nat (subscribers s) - 1)"
    using timer_running_iff [OF inv'] sub by simp
  ultimately show ?thesis
    by (simp add: abs_timer_def unregisterJob_def sub)
qed

lemma timer_step_abs:
  "timer_inv s \<Longrightarrow> abs_timer (timer_step s e) = spec_step (abs_timer s) e"
proof (cases e)
  case (Fire h ora)
  then show ?thesis by (simp add: timer_callback_eq abs_timer_def)
next
  case (WriteInterval d)
  then show ?thesis by (simp add: abs_timer_def)
qed (simp_all add: registerJob_abs unregisterJob_abs)

lemma run_events_abs:
  "timer_inv s \<Longrightarrow> abs_timer (run_events s es) = foldl spec_step (abs_timer s) es"
proof (induction es arbitrary: s)
  case Nil
  then show ?case by simp
next
  case (Cons e es)
  then have "timer_inv (timer_step s e)" by (simp add: timer_step_inv)
  then show ?case using Cons by (simp add: timer_step_abs)
qed

lemma foldl_spec_step_count:
  "spec_count (foldl spec_step a es) = net_count (spec_count a) es"
proof (induction es arbitrary: a)
  case Nil
  then show ?case by simp
next
  case (Cons e es)
  then show ?case by (cases e) simp_all
qed

subsection \<open>Helpers for the properties\<close>

lemma abs_timer_init [simp]: "abs_timer (init_timer d) = spec_init"
  by (simp add: abs_timer_def init_timer_def spec_init_def fun_eq_iff)

lemma invoked_tick_effects_no_throw:
  "list_all (\<lambda>j. \<forall>e. ora (job_id j) \<noteq> Throws e) js \<Longrightarrow>
   invoked (tick_effects ora js) = map job_fn js"
proof (induction js)
  case (Cons j js)
  then show ?case by (cases "ora (job_id j)") simp_all
qed simp

lemma invoked_tick_effects_throw:
  "list_all (\<lambda>j. \<forall>e. ora (job_id j) \<noteq> Throws e) js1 \<Longrightarrow> ora (job_id j) = Throws e \<Longrightarrow>
   tick_effects ora (js1 @ j # js2) =
     tick_effects ora js1 @ [Invoke (job_fn j), UncaughtError e]"
proof (induction js1)
  case (Cons j' js1)
  then show ?case by (cases "ora (job_id j')") simp_all
qed simp

lemma map_the_map_of_keys:
  "distinct (keys_of xs) \<Longrightarrow> map (\<lambda>k. the (map_of xs k)) (keys_of xs) = map snd xs"
proof (induction xs)
  case (Cons p xs)
  obtain k v where p: "p = (k, v)" by fastforce
  from Cons.prems p have "k \<notin> set (keys_of xs)" by simp
  then have "map (\<lambda>k'. the (map_of (p # xs) k')) (keys_of xs) = map (\<lambda>k'. the (map_of xs k')) (keys_of xs)"
    using p by (auto intro: map_cong)
  with Cons p show ?case by simp
qed simp

lemma filter_jobs_by_id:
  "distinct (keys_of xs) \<Longrightarrow> list_all (\<lambda>(k, j). job_id j = k) xs \<Longrightarrow>
   filter (\<lambda>j. job_id j = x) (jmap_values xs) = (case map_of xs x of None \<Rightarrow> [] | Some j \<Rightarrow> [j])"
proof (induction xs)
  case (Cons p xs)
  obtain k v where p: "p = (k, v)" by fastforce
  show ?case
  proof (cases "k = x")
    case True
    with Cons.prems p have "x \<notin> set (keys_of xs)" by simp
    then have "map_of xs x = None" by (simp add: map_of_eq_None_iff)
    with Cons p True show ?thesis by (simp add: jmap_values_def)
  next
    case False
    with Cons p show ?thesis by (simp add: jmap_values_def)
  qed
qed (simp add: jmap_values_def)

lemma jmap_delete_absent: "k \<notin> set (keys_of xs) \<Longrightarrow> jmap_delete k xs = xs"
  by (induction xs) (auto simp: jmap_delete_def)

lemma abs_timer_dom: "dom (spec_jobs (abs_timer s)) = set (keys_of (jobs s))"
  by (simp add: abs_timer_def dom_map_option_comp dom_map_of_conv_image_fst)

lemma abs_timer_the_jobs:
  "map (\<lambda>k. job_fn (the (map_of (jobs s) k))) (keys_of (jobs s)) =
   map (\<lambda>k. the (spec_jobs (abs_timer s) k)) (keys_of (jobs s))"
  by (rule map_cong) (auto simp: abs_timer_def the_map_option dest: weak_map_of_SomeI)

lemma no_throw_jobs:
  assumes ids: "list_all (\<lambda>(k, j). job_id j = k) (jobs s)"
    and hyp: "\<forall>k \<in> set (keys_of (jobs s)). \<forall>e. ora k \<noteq> Throws e"
  shows "list_all (\<lambda>j. \<forall>e. ora (job_id j) \<noteq> Throws e) (jmap_values (jobs s))"
proof -
  { fix k j e assume kj: "(k, j) \<in> set (jobs s)"
    then have "job_id j = k" using ids by (auto simp: list_all_iff)
    moreover have "ora k \<noteq> Throws e" using hyp kj by force
    ultimately have "ora (job_id j) \<noteq> Throws e" by simp }
  then show ?thesis by (auto simp: list_all_iff jmap_values_def)
qed

text \<open>The tick loop against its reference, and the intervals each event can create.\<close>

lemma tick_effects_reference: "tick_effects ora js = tick_reference ora js"
proof (induction js)
  case Nil
  then show ?case by (simp add: tick_reference_def)
next
  case (Cons j js)
  then show ?case by (cases "ora (job_id j)") (simp_all add: tick_reference_def Let_def)
qed

lemma no_set_interval_tick: "filter is_set_interval (tick_effects ora js) = []"
  by (induction js) (simp_all split: call_outcome.split)

lemma intervals_startTimer: "intervals_created (startTimer s) \<le> Suc (intervals_created s)"
  by (cases "timerId s") (simp_all add: intervals_created_def startTimer_idle startTimer_running)

lemma intervals_stopTimer [simp]: "intervals_created (stopTimer s) = intervals_created s"
  by (cases "timerId s") (simp_all add: intervals_created_def stopTimer_idle stopTimer_running)

lemma intervals_field_upd [simp]:
  "intervals_created (s\<lparr>subscribers := n\<rparr>) = intervals_created s"
  "intervals_created (s\<lparr>jobs := js\<rparr>) = intervals_created s"
  by (simp_all add: intervals_created_def)

lemma intervals_addSubscriber: "intervals_created (addSubscriber s) \<le> Suc (intervals_created s)"
proof -
  have "intervals_created (startTimer (s\<lparr>subscribers := n\<rparr>)) \<le> Suc (intervals_created s)" for n
    using intervals_startTimer [of "s\<lparr>subscribers := n\<rparr>"] by simp
  then show ?thesis unfolding addSubscriber_def Let_def by simp
qed

lemma intervals_removeSubscriber [simp]: "intervals_created (removeSubscriber s) = intervals_created s"
  unfolding removeSubscriber_def Let_def by simp

lemma intervals_timer_step:
  "intervals_created (timer_step s e) \<le> intervals_created s + (if is_register e then 1 else 0)"
proof (cases e)
  case (Register i f out)
  let ?s1 = "s\<lparr>jobs := jmap_set i \<lparr>job_id = i, job_fn = f\<rparr> (jobs s), trace := trace s @ register_effects f out\<rparr>"
  have "intervals_created ?s1 = intervals_created s"
    by (cases out) (simp_all add: intervals_created_def register_effects_def)
  then show ?thesis using Register intervals_addSubscriber [of ?s1] by (simp add: registerJob_eq)
next
  case (Unregister i)
  then show ?thesis by (simp add: unregisterJob_def)
next
  case (WriteInterval d)
  then show ?thesis by (simp add: intervals_created_def)
next
  case (Fire h ora)
  then show ?thesis by (simp add: intervals_created_def timer_callback_eq no_set_interval_tick)
qed

lemma intervals_run_events:
  "intervals_created (run_events s es) \<le> intervals_created s + length (filter is_register es)"
proof (induction es arbitrary: s)
  case (Cons e es)
  have "intervals_created (run_events (timer_step s e) es) \<le>
          intervals_created (timer_step s e) + length (filter is_register es)" by (rule Cons.IH)
  then show ?case using intervals_timer_step [of s e] by auto
qed simp

text \<open>Runs that register distinct ids and then let the interval fire.\<close>

lemma timerId_registerJob_running:
  "timerId s = Some h \<Longrightarrow> timerId (registerJob i f out s) = Some h"
  by (simp add: registerJob_eq addSubscriber_def Let_def startTimer_running)

lemma registrations_state:
  assumes "distinct (map fst js)"
  shows "jobs (run_events (init_timer d) (map (\<lambda>(i, f). Register i f Completes) js)) =
           map (\<lambda>(i, f). (i, \<lparr>job_id = i, job_fn = f\<rparr>)) js \<and>
         invoked (trace (run_events (init_timer d) (map (\<lambda>(i, f). Register i f Completes) js))) = map snd js \<and>
         (js \<noteq> [] \<longrightarrow> timerId (run_events (init_timer d) (map (\<lambda>(i, f). Register i f Completes) js)) = Some 1)"
  using assms
proof (induction js rule: rev_induct)
  case Nil
  then show ?case by (simp add: init_timer_def)
next
  case (snoc p js)
  obtain i f where p: "p = (i, f)" by fastforce
  let ?s = "run_events (init_timer d) (map (\<lambda>(i, f). Register i f Completes) js)"
  from snoc.prems p have d: "distinct (map fst js)" and i: "i \<notin> set (map fst js)" by auto
  from snoc.IH [OF d] have jobs: "jobs ?s = map (\<lambda>(i, f). (i, \<lparr>job_id = i, job_fn = f\<rparr>)) js"
    and inv: "invoked (trace ?s) = map snd js"
    and tid: "js \<noteq> [] \<longrightarrow> timerId ?s = Some 1" by auto
  have "i \<notin> set (keys_of (jobs ?s))" using i jobs by (auto simp: case_prod_beta)
  then have j: "jobs (registerJob i f Completes ?s) = jobs ?s @ [(i, \<lparr>job_id = i, job_fn = f\<rparr>)]"
    by (simp add: jmap_set_absent)
  have t: "timerId (registerJob i f Completes ?s) = Some 1"
  proof (cases "js = []")
    case True
    then show ?thesis by (simp add: init_timer_def registerJob_eq addSubscriber_def startTimer_idle)
  next
    case False
    with tid show ?thesis by (simp add: timerId_registerJob_running)
  qed
  show ?case using j t jobs inv p by simp
qed

lemma ticks_invoke_all:
  assumes "timer_inv s" and "timerId s = Some h"
  shows "invoked (trace (run_events s (replicate k (Fire h (\<lambda>_. Completes))))) =
           invoked (trace s) @ concat (replicate k (map job_fn (jmap_values (jobs s))))"
  using assms
proof (induction k arbitrary: s)
  case 0
  then show ?case by simp
next
  case (Suc k)
  have live: "h \<in> set (keys_of (live_intervals s))" using Suc.prems by (simp add: timer_inv_def)
  let ?s' = "timer_callback (\<lambda>_. Completes) s"
  have step: "timer_step s (Fire h (\<lambda>_. Completes)) = ?s'" using live by simp
  have inv': "timer_inv ?s'" using Suc.prems(1) by (rule timer_callback_inv)
  have eq: "?s' = s\<lparr>trace := trace s @ tick_effects (\<lambda>_. Completes) (jmap_values (jobs s))\<rparr>"
    by (rule timer_callback_eq)
  have tick: "invoked (tick_effects (\<lambda>_. Completes) (jmap_values (jobs s))) = map job_fn (jmap_values (jobs s))"
    by (rule invoked_tick_effects_no_throw) (simp add: list_all_iff)
  have "timerId ?s' = Some h" using Suc.prems(2) eq by simp
  then have "invoked (trace (run_events ?s' (replicate k (Fire h (\<lambda>_. Completes))))) =
               invoked (trace ?s') @ concat (replicate k (map job_fn (jmap_values (jobs ?s'))))"
    using Suc.IH [OF inv'] by blast
  then show ?case using step eq tick by simp
qed

section \<open>Properties of the scheduler\<close>

text \<open>
  C1: in every run of the store from its initial state the subscriber counter is never
  negative, and the store holds a timer handle exactly when the counter is positive.
\<close>

theorem timer_held_iff_subscribed:
  "(timerId (run_events (init_timer d) es) \<noteq> None \<longleftrightarrow> 0 < subscribers (run_events (init_timer d) es)) \<and>
   0 \<le> subscribers (run_events (init_timer d) es)"
proof -
  have "timer_inv (run_events (init_timer d) es)"
    by (rule run_events_inv [OF timer_inv_init])
  then show ?thesis by (auto simp: timer_inv_def)
qed

text \<open>
  C2: in every reachable state at most one interval of the browser is live for the
  store: none while no handle is held, and otherwise exactly the held one.
\<close>

theorem single_live_interval:
  assumes "timer_reach d s"
  shows "keys_of (live_intervals s) = (case timerId s of None \<Rightarrow> [] | Some h \<Rightarrow> [h])"
proof -
  from assms have "timer_inv s" by (rule timer_reach_inv)
  then show ?thesis by (simp add: timer_inv_def)
qed

theorem single_live_interval_witness:
  "timer_reach (Fin 15000) (run_events (init_timer (Fin 15000)) [Register ''flows'' (0::nat) Completes]) \<and>
   keys_of (live_intervals (run_events (init_timer (Fin 15000)) [Register ''flows'' (0::nat) Completes])) = [1]"
proof -
  have r: "timer_reach (Fin 15000) (run_events (init_timer (Fin 15000)) [Register ''flows'' (0::nat) Completes])"
    by (rule timer_reach_run_events)
  have "timerId (run_events (init_timer (Fin 15000)) [Register ''flows'' (0::nat) Completes]) = Some 1"
    by (simp add: init_timer_def registerJob_eq addSubscriber_def startTimer_idle)
  then show ?thesis using single_live_interval [OF r] r by simp
qed

text \<open>
  C3: after any sequence of register, unregister and tick events the subscriber counter
  equals the net number of registrations, clamped at zero at every unregistration, and
  the timer is held exactly when that number is positive.
\<close>

theorem subscribers_net_count:
  "subscribers (run_events (init_timer d) es) = int (net_count 0 es) \<and>
   (timerId (run_events (init_timer d) es) \<noteq> None \<longleftrightarrow> 0 < net_count 0 es)"
proof -
  let ?s = "run_events (init_timer d) es"
  have inv: "timer_inv ?s" by (rule run_events_inv [OF timer_inv_init])
  have "abs_timer ?s = foldl spec_step spec_init es"
    using run_events_abs [OF timer_inv_init] by simp
  then have "spec_count (abs_timer ?s) = spec_count (foldl spec_step spec_init es)" by simp
  also have "\<dots> = net_count 0 es" by (simp add: foldl_spec_step_count spec_init_def)
  finally have "nat (subscribers ?s) = net_count 0 es" by (simp add: abs_timer_def)
  moreover have "0 \<le> subscribers ?s" using inv by (simp add: timer_inv_def)
  ultimately show ?thesis using timer_running_iff [OF inv] by auto
qed

text \<open>
  C4: \<^verbatim>\<open>registerJob\<close> calls the action once, at once (it is the first effect the
  call produces and no other job is invoked), whatever the action does; the counter is
  incremented even when the action throws, and the job is stored under its id.
\<close>

theorem registerJob_invokes_once:
  "(\<exists>xs. trace (registerJob i f out s) = trace s @ Invoke f # xs \<and> invoked xs = []) \<and>
   subscribers (registerJob i f out s) = subscribers s + 1 \<and>
   map_of (jobs (registerJob i f out s)) i = Some \<lparr>job_id = i, job_fn = f\<rparr>"
proof -
  let ?s1 = "s\<lparr>jobs := jmap_set i \<lparr>job_id = i, job_fn = f\<rparr> (jobs s), trace := trace s @ register_effects f out\<rparr>"
  obtain xs where xs: "trace (addSubscriber ?s1) = trace ?s1 @ xs" and "invoked xs = []"
  proof (cases "subscribers s = 0 \<and> timerId s = None")
    case True
    then show ?thesis
      using that [of "[SetIntervalFx (next_handle s) (intervalMs s), ConsoleLog ''[GlobalTimer] Started'']"]
      by (simp add: addSubscriber_def startTimer_idle)
  next
    case False
    then show ?thesis
      using that [of "[]"]
      by (auto simp: addSubscriber_def Let_def startTimer_running)
  qed
  then have "trace (registerJob i f out s) = trace s @ Invoke f # (tl (register_effects f out) @ xs)
             \<and> invoked (tl (register_effects f out) @ xs) = []"
    by (cases out) (simp_all add: registerJob_eq register_effects_def)
  then show ?thesis by auto
qed

text \<open>
  C5: when no job throws synchronously, one tick invokes the action registered under
  each id exactly once (in the map's insertion order), and nothing else.
\<close>

theorem tick_invokes_each_job:
  assumes "timer_inv s"
    and "\<forall>k \<in> dom (spec_jobs (abs_timer s)). \<forall>e. ora k \<noteq> Throws e"
  shows "invoked (trace (timer_callback ora s)) =
           invoked (trace s) @ map (\<lambda>k. the (spec_jobs (abs_timer s) k)) (keys_of (jobs s)) \<and>
         distinct (keys_of (jobs s)) \<and> set (keys_of (jobs s)) = dom (spec_jobs (abs_timer s))"
proof -
  have d: "distinct (keys_of (jobs s))" and ids: "list_all (\<lambda>(k, j). job_id j = k) (jobs s)"
    using assms(1) by (simp_all add: timer_inv_def)
  have "list_all (\<lambda>j. \<forall>e. ora (job_id j) \<noteq> Throws e) (jmap_values (jobs s))"
    using no_throw_jobs [OF ids] assms(2) by (simp add: abs_timer_dom)
  then have "invoked (tick_effects ora (jmap_values (jobs s))) = map job_fn (map snd (jobs s))"
    by (simp add: invoked_tick_effects_no_throw jmap_values_def)
  also have "\<dots> = map (\<lambda>k. job_fn (the (map_of (jobs s) k))) (keys_of (jobs s))"
    using arg_cong [OF map_the_map_of_keys [OF d], of "map job_fn"] by (simp add: comp_def)
  also have "\<dots> = map (\<lambda>k. the (spec_jobs (abs_timer s) k)) (keys_of (jobs s))"
    by (rule abs_timer_the_jobs)
  finally show ?thesis using d by (simp add: timer_callback_eq abs_timer_dom)
qed

theorem tick_invokes_each_job_witness:
  "timer_inv (run_events (init_timer (Fin 15000)) [Register ''a'' (0::nat) Completes, Register ''b'' 1 Completes]) \<and>
   invoked (trace (timer_callback (\<lambda>_. Completes)
     (run_events (init_timer (Fin 15000)) [Register ''a'' (0::nat) Completes, Register ''b'' 1 Completes]))) = [0, 1, 0, 1]"
proof -
  let ?s = "run_events (init_timer (Fin 15000)) [Register ''a'' (0::nat) Completes, Register ''b'' 1 Completes]"
  have inv: "timer_inv ?s" by (rule run_events_inv [OF timer_inv_init])
  have hyp: "\<forall>k \<in> dom (spec_jobs (abs_timer ?s)). \<forall>e. (\<lambda>_. Completes) k \<noteq> Throws e" by simp
  have jobs: "jobs ?s = [(''a'', \<lparr>job_id = ''a'', job_fn = 0\<rparr>), (''b'', \<lparr>job_id = ''b'', job_fn = 1\<rparr>)]"
    by (simp add: init_timer_def)
  have tr: "invoked (trace ?s) = [0, 1]" by (simp add: init_timer_def)
  show ?thesis
    using tick_invokes_each_job [OF inv hyp] inv jobs tr by (simp add: abs_timer_def)
qed

text \<open>
  C6: the interval callback has no \<^verbatim>\<open>try\<close>: when a job throws synchronously, the jobs
  after it in the map are not invoked in that tick; the tick ends with the uncaught error.
\<close>

theorem tick_throw_skips_later_jobs:
  assumes "jmap_values (jobs s) = js1 @ j # js2"
    and "list_all (\<lambda>j'. \<forall>e'. ora (job_id j') \<noteq> Throws e') js1"
    and "ora (job_id j) = Throws e"
  shows "trace (timer_callback ora s) =
           trace s @ tick_effects ora js1 @ [Invoke (job_fn j), UncaughtError e] \<and>
         invoked (trace (timer_callback ora s)) = invoked (trace s) @ map job_fn js1 @ [job_fn j]"
  using assms by (simp add: timer_callback_eq invoked_tick_effects_throw invoked_tick_effects_no_throw)

theorem tick_throw_skips_later_jobs_witness:
  "invoked (trace (timer_callback (\<lambda>k. if k = ''a'' then Throws (JsExn ''boom'') else Completes)
      (run_events (init_timer (Fin 15000)) [Register ''a'' (0::nat) Completes, Register ''b'' 1 Completes])))
   = [0, 1, 0]"
proof -
  let ?s = "run_events (init_timer (Fin 15000)) [Register ''a'' (0::nat) Completes, Register ''b'' 1 Completes]"
  let ?ora = "\<lambda>k. if k = ''a'' then Throws (JsExn ''boom'') else Completes"
  have v: "jmap_values (jobs ?s) = [] @ \<lparr>job_id = ''a'', job_fn = 0\<rparr> # [\<lparr>job_id = ''b'', job_fn = 1\<rparr>]"
    by (simp add: init_timer_def jmap_values_def)
  have tr: "invoked (trace ?s) = [0, 1]" by (simp add: init_timer_def)
  have "list_all (\<lambda>j'. \<forall>e'. ?ora (job_id j') \<noteq> Throws e') []" by simp
  moreover have "?ora (job_id \<lparr>job_id = ''a'', job_fn = (0::nat)\<rparr>) = Throws (JsExn ''boom'')" by simp
  ultimately show ?thesis
    using tick_throw_skips_later_jobs [OF v] tr by simp
qed

text \<open>
  A tick changes nothing but the trace, whatever the jobs do: the timer keeps
  running, the registry and the counter are untouched, also after a throw.
\<close>

theorem fire_changes_only_trace:
  "timer_step s (Fire h ora) = s\<lparr>trace := trace (timer_step s (Fire h ora))\<rparr>"
  by (simp add: timer_callback_eq)

text \<open>
  C8: registering an id that is already registered replaces its action: afterwards the
  registry holds one job for the id, with the new action.
\<close>

theorem reregister_replaces:
  assumes "timer_inv s"
  shows "filter (\<lambda>j. job_id j = x) (jmap_values (jobs (registerJob x g o2 (registerJob x f o1 s)))) =
           [\<lparr>job_id = x, job_fn = g\<rparr>]"
proof -
  let ?s = "registerJob x g o2 (registerJob x f o1 s)"
  have "timer_inv ?s" using assms by (intro registerJob_inv)
  then have "distinct (keys_of (jobs ?s))" and "list_all (\<lambda>(k, j). job_id j = k) (jobs ?s)"
    by (simp_all add: timer_inv_def)
  then show ?thesis by (simp add: filter_jobs_by_id)
qed

theorem reregister_replaces_witness:
  "filter (\<lambda>j. job_id j = ''x'') (jmap_values (jobs (registerJob ''x'' (1::nat) Completes
      (registerJob ''x'' 0 Completes (init_timer (Fin 15000)))))) = [\<lparr>job_id = ''x'', job_fn = 1\<rparr>]"
  using reregister_replaces [OF timer_inv_init] .

text \<open>
  C9: unregistering an id that is not registered leaves the registry alone, never
  drives the counter below zero, keeps the invariant, and stops the timer exactly when
  the counter reaches zero.
\<close>

theorem unregister_absent_id:
  assumes "timer_inv s" and "x \<notin> dom (spec_jobs (abs_timer s))"
  shows "jobs (unregisterJob x s) = jobs s \<and> subscribers (unregisterJob x s) = max 0 (subscribers s - 1) \<and>
         timer_inv (unregisterJob x s) \<and> (timerId (unregisterJob x s) = None \<longleftrightarrow> subscribers s \<le> 1)"
proof -
  have inv': "timer_inv (unregisterJob x s)" using assms(1) by (rule unregisterJob_inv)
  have "x \<notin> set (keys_of (jobs s))" using assms(2) by (simp add: abs_timer_dom)
  then have "jobs (unregisterJob x s) = jobs s" by (simp add: jmap_delete_absent)
  moreover have "(timerId (unregisterJob x s) = None) = (subscribers s \<le> 1)"
    using timer_running_iff [OF inv'] by auto
  ultimately show ?thesis using inv' by simp
qed

theorem unregister_absent_id_witness:
  "''x'' \<notin> dom (spec_jobs (abs_timer (init_timer (Fin 15000) :: nat timer_state))) \<and>
   subscribers (unregisterJob ''x'' (init_timer (Fin 15000) :: nat timer_state)) = 0 \<and>
   timerId (unregisterJob ''x'' (init_timer (Fin 15000) :: nat timer_state)) = None"
proof -
  have a: "''x'' \<notin> dom (spec_jobs (abs_timer (init_timer (Fin 15000) :: nat timer_state)))"
    by (simp add: spec_init_def)
  show ?thesis
    using unregister_absent_id [OF timer_inv_init a] a by (simp add: init_timer_def)
qed

text \<open>
  C10: the store implements the contract: for every event sequence, the registered
  actions by id, the counter and whether the timer runs are those of the abstract
  scheduler of the spec run on the same events.
\<close>

theorem run_refines_spec:
  "abs_timer (run_events (init_timer d) es) = foldl spec_step spec_init es"
  using run_events_abs [OF timer_inv_init] by simp

text \<open>
  C11: from the idle state, \<^verbatim>\<open>registerJob\<close> first calls the action (and logs a
  synchronous throw), and only then creates the interval and logs the start.
\<close>

theorem register_calls_before_timer_start:
  assumes "timer_inv s" and "timerId s = None"
  shows "trace (registerJob i f out s) =
           trace s @ register_effects f out @
             [SetIntervalFx (next_handle s) (intervalMs s), ConsoleLog ''[GlobalTimer] Started'']"
proof -
  have "subscribers s = 0" using assms by (simp add: timer_inv_def)
  with assms(2) show ?thesis by (simp add: registerJob_eq addSubscriber_def startTimer_idle)
qed

theorem register_calls_before_timer_start_witness:
  "trace (registerJob ''a'' (0::nat) (Throws (JsExn ''e'')) (init_timer (Fin 15000))) =
     [Invoke 0, ConsoleError ''Job immediate execution error:'' (JsExn ''e''),
      SetIntervalFx 1 (Fin 15000), ConsoleLog ''[GlobalTimer] Started'']"
proof -
  have "timerId (init_timer (Fin 15000) :: nat timer_state) = None" by (simp add: init_timer_def)
  from register_calls_before_timer_start [OF timer_inv_init this]
  show ?thesis by (simp add: init_timer_def register_effects_def)
qed

text \<open>
  C12: the spec's end-to-end scenario, for any jobs and any number of ticks: after
  registering jobs under distinct ids and \<open>k\<close> firings of the interval, each action has
  run once at its registration and once per tick, in registration order: 1 + k times.
\<close>

theorem register_then_ticks:
  assumes "distinct (map fst js)" and "js \<noteq> []"
  shows "invoked (trace (run_events (init_timer d)
           (map (\<lambda>(i, f). Register i f Completes) js @ replicate k (Fire 1 (\<lambda>_. Completes))))) =
         map snd js @ concat (replicate k (map snd js))"
proof -
  let ?s = "run_events (init_timer d) (map (\<lambda>(i, f). Register i f Completes) js)"
  have st: "jobs ?s = map (\<lambda>(i, f). (i, \<lparr>job_id = i, job_fn = f\<rparr>)) js"
    "invoked (trace ?s) = map snd js" "timerId ?s = Some 1"
    using registrations_state [OF assms(1), of d] assms(2) by auto
  have inv: "timer_inv ?s" by (rule run_events_inv [OF timer_inv_init])
  have "map job_fn (jmap_values (jobs ?s)) = map snd js"
    using st(1) by (simp add: jmap_values_def comp_def case_prod_beta)
  then show ?thesis using ticks_invoke_all [OF inv st(3), of k] st(2) by (simp add: run_events_def)
qed

theorem register_then_ticks_witness:
  "invoked (trace (run_events (init_timer (Fin 1000))
     (map (\<lambda>(i, f). Register i f Completes) [(''A'', 0::nat), (''B'', 1)] @ replicate 3 (Fire 1 (\<lambda>_. Completes))))) =
   [0, 1, 0, 1, 0, 1, 0, 1]"
  using register_then_ticks [of "[(''A'', 0::nat), (''B'', 1)]" "Fin 1000" 3] by (simp add: numeral_3_eq_3)

text \<open>
  C13: the counter counts calls, not ids: from any state of the store, registering one
  id twice and unregistering it once removes the id from the registry but leaves the
  counter one higher than before, so the timer keeps running.
\<close>

theorem register_twice_unregister_once:
  assumes "timer_inv s"
  shows "map_of (jobs (unregisterJob x (registerJob x g o2 (registerJob x f o1 s)))) x = None \<and>
         subscribers (unregisterJob x (registerJob x g o2 (registerJob x f o1 s))) = subscribers s + 1 \<and>
         timerId (unregisterJob x (registerJob x g o2 (registerJob x f o1 s))) \<noteq> None"
proof -
  let ?s = "unregisterJob x (registerJob x g o2 (registerJob x f o1 s))"
  have pos: "0 \<le> subscribers s" using assms by (simp add: timer_inv_def)
  have inv: "timer_inv ?s" using assms by (intro unregisterJob_inv registerJob_inv)
  have sub: "subscribers ?s = subscribers s + 1" using pos by simp
  then have "0 < subscribers ?s" using pos by simp
  then have "timerId ?s \<noteq> None" using timer_running_iff [OF inv] by simp
  then show ?thesis using sub by simp
qed

theorem register_twice_unregister_once_witness:
  "map_of (jobs (unregisterJob ''x'' (registerJob ''x'' (1::nat) Completes (registerJob ''x'' 0 Completes (init_timer (Fin 15000)))))) ''x'' = None \<and>
   subscribers (unregisterJob ''x'' (registerJob ''x'' (1::nat) Completes (registerJob ''x'' 0 Completes (init_timer (Fin 15000))))) = 1"
  using register_twice_unregister_once [OF timer_inv_init, of "''x''" "1::nat" Completes 0 Completes "Fin 15000"]
  by (simp add: init_timer_def)
text \<open>
  C14: the interval callback's loop, which threads the store through one call per job
  and leaves at the first synchronous throw, is equivalent to the declarative reference
  \<open>tick_reference\<close>: it only appends the reference's effects to the trace.
\<close>

theorem tick_jobs_equiv:
  "tick_jobs ora js s = s\<lparr>trace := trace s @ tick_reference ora js\<rparr>"
  by (simp add: tick_jobs_eq tick_effects_reference)

text \<open>
  C25: no interval leaks: a run creates at most one browser interval per registration
  among its events, and at most one interval of the store is live at any time.
\<close>

theorem intervals_bounded:
  "intervals_created (run_events (init_timer d) es) \<le> length (filter is_register es) \<and>
   length (live_intervals (run_events (init_timer d) es)) \<le> 1"
proof
  show "intervals_created (run_events (init_timer d) es) \<le> length (filter is_register es)"
    using intervals_run_events [of "init_timer d" es] by (simp add: intervals_created_def init_timer_def)
  have "timer_inv (run_events (init_timer d) es)" by (rule run_events_inv [OF timer_inv_init])
  then have "keys_of (live_intervals (run_events (init_timer d) es)) = [] \<or>
             (\<exists>h. keys_of (live_intervals (run_events (init_timer d) es)) = [h])"
    by (auto simp: timer_inv_def split: option.splits)
  moreover have "length (live_intervals (run_events (init_timer d) es)) =
                 length (keys_of (live_intervals (run_events (init_timer d) es)))" by simp
  ultimately show "length (live_intervals (run_events (init_timer d) es)) \<le> 1" by auto
qed
text \<open>Starting a started timer and stopping a stopped timer change nothing.\<close>

theorem start_stop_idempotent:
  "startTimer (startTimer s) = startTimer s \<and> stopTimer (stopTimer s) = stopTimer s"
proof (cases "timerId s")
  case None
  then show ?thesis by (simp add: startTimer_idle startTimer_running stopTimer_idle)
next
  case (Some h)
  then show ?thesis by (simp add: startTimer_running stopTimer_running stopTimer_idle)
qed

subsection \<open>The configured interval\<close>

text \<open>
  C26: the interval read from the environment is the number the variable spells when
  it is the decimal form of a nonzero integer within the range that doubles represent
  exactly (\<open>|i| \<le> 2^53\<close>), negative ones included: the fallback only catches 0,
  which gives the default 15000.
\<close>

theorem interval_config_decimal:
  assumes "\<bar>i\<bar> \<le> 2 ^ 53"
  shows "intervalMs_of_env (Some (int_to_dec i)) = (if i = 0 then Fin 15000 else Fin (of_int i))"
  by (simp add: intervalMs_of_env_def num_or_def num_truthy_def string_to_number_int_to_dec js_Number_def)

theorem interval_config_decimal_witness:
  "intervalMs_of_env (Some (int_to_dec (-5))) = Fin (-5)"
  using interval_config_decimal [of "-5"] by simp

text \<open>
  C27: an unset variable, and one that holds only white space (the empty string
  included), gives the default interval of 15000 ms.
\<close>

theorem interval_config_defaults:
  assumes "list_all js_whitespace v"
  shows "intervalMs_of_env (Some v) = Fin 15000 \<and> intervalMs_of_env None = Fin 15000"
proof -
  have d: "dropWhile js_whitespace v = []" using assms by (simp add: list_all_iff dropWhile_eq_Nil_conv)
  have "trim_ws v = []" unfolding trim_ws_def d by simp
  then have "string_to_number v = Fin 0" unfolding string_to_number_def Let_def by simp
  then show ?thesis by (simp add: intervalMs_of_env_def num_or_def num_truthy_def js_Number_def)
qed

theorem interval_config_defaults_witness:
  "intervalMs_of_env (Some ''  '') = Fin 15000"
  using interval_config_defaults [of "''  ''"] by (simp add: js_whitespace_def)

end
