(* ===== verification/Bootstrap.thy ===== *)
theory Bootstrap
  imports GlobalTimer
begin

text \<open>
  The bootstrap of \<^verbatim>\<open>src/src/main.ts\<close> and the Pinia store registry it installs.
  \<^verbatim>\<open>createApp(App)\<close> makes an application with no plugins; \<^verbatim>\<open>app.use(p)\<close>
  installs a plugin once (Vue ignores a second installation of the same plugin, with a
  warning); installing Pinia makes it the active Pinia, with no stores yet;
  \<^verbatim>\<open>app.mount\<close> mounts once. Vue and Pinia are library code: their behaviour is
  written from their documentation. \<^verbatim>\<open>useGlobalTimerStore()\<close> (the function
  \<^verbatim>\<open>defineStore("globalTimer", setup)\<close> returns) fails without an active Pinia; it
  runs the setup function of \<^verbatim>\<open>timer.ts\<close> only when the active Pinia has no store
  under the id yet, and otherwise returns the existing store. A component that uses the
  store calls it and then one of the store's operations, so every event of
  \<open>GlobalTimer\<close> goes through it.
\<close>

datatype plugin = PiniaPlugin | RouterPlugin | NaivePlugin

record 'f vue_app =
  app_plugins :: "plugin list"
  app_mounted :: "string option"
  active_pinia :: "(string \<times> 'f timer_state) list option"

definition createApp :: "'f vue_app" where
  "createApp = \<lparr>app_plugins = [], app_mounted = None, active_pinia = None\<rparr>"

definition app_use :: "plugin \<Rightarrow> 'f vue_app \<Rightarrow> 'f vue_app" where
  "app_use p a =
     (if p \<in> set (app_plugins a) then a
      else a\<lparr>app_plugins := app_plugins a @ [p],
             active_pinia := (if p = PiniaPlugin then Some [] else active_pinia a)\<rparr>)"

definition app_mount :: "string \<Rightarrow> 'f vue_app \<Rightarrow> 'f vue_app" where
  "app_mount sel a = (case app_mounted a of None \<Rightarrow> a\<lparr>app_mounted := Some sel\<rparr> | Some _ \<Rightarrow> a)"

definition main_ts :: "'f vue_app" where
  "main_ts = app_mount ''#app'' (app_use NaivePlugin (app_use RouterPlugin (app_use PiniaPlugin createApp)))"

subsection \<open>The store registry\<close>

datatype pinia_error = NoActivePinia

definition timer_store_id :: string where
  "timer_store_id = ''globalTimer''"

definition useGlobalTimerStore :: "string option \<Rightarrow> 'f vue_app \<Rightarrow> pinia_error + 'f timer_state \<times> 'f vue_app" where
  "useGlobalTimerStore env a =
     (case active_pinia a of
        None \<Rightarrow> Inl NoActivePinia
      | Some ss \<Rightarrow>
          (case map_of ss timer_store_id of
             Some st \<Rightarrow> Inr (st, a)
           | None \<Rightarrow>
               (let st = store_init env
                in Inr (st, a\<lparr>active_pinia := Some (jmap_set timer_store_id st ss)\<rparr>))))"

text \<open>One event through the store a component obtains, written back to the registry.\<close>

definition component_step :: "string option \<Rightarrow> 'f vue_app \<Rightarrow> 'f event \<Rightarrow> pinia_error + 'f vue_app" where
  "component_step env a e =
     (case useGlobalTimerStore env a of
        Inl err \<Rightarrow> Inl err
      | Inr (st, a') \<Rightarrow>
          Inr (a'\<lparr>active_pinia := map_option (jmap_set timer_store_id (timer_step st e)) (active_pinia a')\<rparr>))"

fun app_run :: "string option \<Rightarrow> 'f vue_app \<Rightarrow> 'f event list \<Rightarrow> pinia_error + 'f vue_app" where
  "app_run env a [] = Inr a"
| "app_run env a (e # es) =
     (case component_step env a e of Inl err \<Rightarrow> Inl err | Inr a' \<Rightarrow> app_run env a' es)"

definition current_store :: "'f vue_app \<Rightarrow> 'f timer_state option" where
  "current_store a = (case active_pinia a of None \<Rightarrow> None | Some ss \<Rightarrow> map_of ss timer_store_id)"

subsection \<open>Lemmas\<close>

lemma component_step_existing:
  "active_pinia a = Some ss \<Longrightarrow> map_of ss timer_store_id = Some st \<Longrightarrow>
   component_step env a e = Inr (a\<lparr>active_pinia := Some (jmap_set timer_store_id (timer_step st e) ss)\<rparr>)"
  by (simp add: component_step_def useGlobalTimerStore_def)

lemma app_run_existing:
  "active_pinia a = Some ss \<Longrightarrow> map_of ss timer_store_id = Some st \<Longrightarrow>
   \<exists>a'. app_run env a es = Inr a' \<and> current_store a' = Some (run_events st es)"
proof (induction es arbitrary: a ss st)
  case Nil
  then show ?case by (simp add: current_store_def)
next
  case (Cons e es)
  let ?ss = "jmap_set timer_store_id (timer_step st e) ss"
  have "component_step env a e = Inr (a\<lparr>active_pinia := Some ?ss\<rparr>)"
    using Cons.prems by (rule component_step_existing)
  moreover have "map_of ?ss timer_store_id = Some (timer_step st e)" by simp
  then have "\<exists>a'. app_run env (a\<lparr>active_pinia := Some ?ss\<rparr>) es = Inr a' \<and>
                   current_store a' = Some (run_events (timer_step st e) es)"
    by (intro Cons.IH [where ss = ?ss]) simp_all
  ultimately show ?case by (simp add: run_events_def)
qed

end
