(* ===== verification/Http.thy ===== *)
theory Http
  imports JsRuntime
begin

text \<open>
  The failure-normalization layer of \<^verbatim>\<open>src/src/utils/http.ts\<close>: the two axios
  instances, and \<^verbatim>\<open>globalErrorResponseInterceptor\<close>, which the REST instance runs on
  every failed request and which turns an \<^verbatim>\<open>AxiosError\<close> into an \<^verbatim>\<open>Error\<close>
  carrying a display message and a \<^verbatim>\<open>cause\<close>. How axios itself settles a request
  (which outcomes reject, with which code and message) is library behaviour, written from
  the axios documentation; the instances and the interceptor are the repository's code.
  The interceptor's Chinese messages are byte strings: the UTF-8 encoding of the
  literals of the source.
\<close>

subsection \<open>Axios: instances, responses, errors\<close>

record axios_instance =
  baseURL :: "string option"
  timeout_ms :: nat
  error_interceptor :: bool

record axios_response =
  resp_status :: int
  resp_data :: json

record axios_error =
  err_response :: "axios_response option"
  err_request :: bool
  err_code :: "string option"
  err_message :: string

text \<open>
  What happens to a request on the wire: the server answers with a status and a body,
  the instance's timeout expires, the connection fails, or the request cannot be sent
  (a configuration error, with the message of the error axios raises).
\<close>

datatype transport = Responded int json | TimedOut | NetworkDown | NotSent string

definition axios_create :: "string option \<Rightarrow> nat \<Rightarrow> axios_instance" where
  "axios_create base t = \<lparr>baseURL = base, timeout_ms = t, error_interceptor = False\<rparr>"

text \<open>
  How axios settles a request: a status in \<open>[200, 300)\<close> resolves; any other status
  rejects with the response attached, code \<^verbatim>\<open>ERR_BAD_REQUEST\<close> for 4xx and
  \<^verbatim>\<open>ERR_BAD_RESPONSE\<close> for 5xx; an expired timeout rejects with code
  \<^verbatim>\<open>ECONNABORTED\<close>; a failed connection with \<^verbatim>\<open>ERR_NETWORK\<close>; in the last two the
  request was sent and no response is attached.
\<close>

definition axios_settle :: "axios_instance \<Rightarrow> transport \<Rightarrow> axios_error + axios_response" where
  "axios_settle inst t =
     (case t of
        Responded st body \<Rightarrow>
          (if 200 \<le> st \<and> st < 300 then Inr \<lparr>resp_status = st, resp_data = body\<rparr>
           else Inl \<lparr>err_response = Some \<lparr>resp_status = st, resp_data = body\<rparr>, err_request = True,
                     err_code = (if st div 100 = 4 then Some ''ERR_BAD_REQUEST''
                                 else if st div 100 = 5 then Some ''ERR_BAD_RESPONSE'' else None),
                     err_message = ''Request failed with status code '' @ int_to_dec st\<rparr>)
      | TimedOut \<Rightarrow>
          Inl \<lparr>err_response = None, err_request = True, err_code = Some ''ECONNABORTED'',
               err_message = ''timeout of '' @ nat_to_dec (timeout_ms inst) @ ''ms exceeded''\<rparr>
      | NetworkDown \<Rightarrow>
          Inl \<lparr>err_response = None, err_request = True, err_code = Some ''ERR_NETWORK'',
               err_message = ''Network Error''\<rparr>
      | NotSent msg \<Rightarrow>
          Inl \<lparr>err_response = None, err_request = False, err_code = None, err_message = msg\<rparr>)"

subsection \<open>The instances of the repository\<close>

definition restAxiosInstance :: "string option \<Rightarrow> axios_instance" where
  "restAxiosInstance base = (axios_create base (1000 * 15))\<lparr>error_interceptor := True\<rparr>"

definition blobAxiosInstance :: "string option \<Rightarrow> axios_instance" where
  "blobAxiosInstance base = axios_create base (1000 * 15)"

subsection \<open>The enhanced error\<close>

record error_cause =
  originalError :: axios_error
  httpStatus :: "int option"
  businessCode :: "int option"
  isAxiosError :: bool

record enhanced_error =
  error_message :: string
  error_cause :: error_cause

text \<open>The literals of the interceptor, as UTF-8 bytes.\<close>

definition msg_status_failed :: string where
  \<comment> \<open>the text before the status in the template of lines 36 and 39\<close>
  "msg_status_failed = utf8 [232, 175, 183, 230, 177, 130, 229, 164, 177, 232, 180, 165, 239, 188, 140,
     231, 138, 182, 230, 128, 129, 231, 160, 129, 58, 32]"

definition msg_timeout :: string where
  "msg_timeout = utf8 [232, 175, 183, 230, 177, 130, 232, 182, 133, 230, 151, 182, 239, 188, 140,
     232, 175, 183, 230, 163, 128, 230, 159, 165, 231, 189, 145, 231, 187, 156, 230, 136, 150,
     231, 168, 141, 229, 144, 142, 229, 134, 141, 232, 175, 149]"

definition msg_network :: string where
  "msg_network = utf8 [231, 189, 145, 231, 187, 156, 229, 188, 130, 229, 184, 184, 239, 188, 140,
     230, 151, 160, 230, 179, 149, 232, 191, 158, 230, 142, 165, 230, 156, 141, 229, 138, 161,
     229, 153, 168]"

definition msg_unknown :: string where
  "msg_unknown = utf8 [229, 143, 145, 232, 181, 183, 232, 175, 183, 230, 177, 130, 230, 151, 182,
     229, 143, 145, 231, 148, 159, 230, 156, 170, 231, 159, 165, 233, 148, 153, 232, 175, 175]"

subsection \<open>The interceptor\<close>

text \<open>
  The value \<^verbatim>\<open>errorMessage\<close> holds before \<^verbatim>\<open>new Error(errorMessage)\<close>, and the
  status recorded. For a response, \<^verbatim>\<open>flowResponse.message || template\<close> keeps any
  truthy value of the member (not only strings); reading the member of a \<open>null\<close> body
  throws, and the \<^verbatim>\<open>catch\<close> uses the template.
\<close>

definition status_template :: "int \<Rightarrow> json" where
  "status_template st = JStr (msg_status_failed @ int_to_dec st)"

definition classify_error :: "axios_error \<Rightarrow> json \<times> int option" where
  "classify_error e =
     (case err_response e of
        Some r \<Rightarrow>
          ((case js_get (resp_data r) ''message'' of
              Inr m \<Rightarrow> (if json_truthy m then m else status_template (resp_status r))
            | Inl TypeError \<Rightarrow> status_template (resp_status r)),
           Some (resp_status r))
      | None \<Rightarrow>
          (if err_request e then
             (if err_code e = Some ''ECONNABORTED'' \<or> js_includes (err_message e) ''timeout''
              then JStr msg_timeout else JStr msg_network)
           else (if err_message e \<noteq> [] then JStr (err_message e) else JStr msg_unknown),
           None))"

definition globalErrorResponseInterceptor :: "axios_error \<Rightarrow> enhanced_error" where
  "globalErrorResponseInterceptor e =
     (let (m, st) = classify_error e
      in \<lparr>error_message = js_to_string m,
          error_cause = \<lparr>originalError = e, httpStatus = st, businessCode = None, isAxiosError = True\<rparr>\<rparr>)"

subsection \<open>A request through an instance\<close>

text \<open>
  The promise of a request: the response, or the rejection value. The REST instance
  passes a success through unchanged and hands every failure to the interceptor, whose
  \<^verbatim>\<open>Promise.reject(enhancedError)\<close> is the rejection; the blob instance has no
  interceptor and rejects with the raw axios error.
\<close>

datatype request_failure = Normalized enhanced_error | Raw axios_error

definition axios_call :: "axios_instance \<Rightarrow> transport \<Rightarrow> request_failure + axios_response" where
  "axios_call inst t =
     (case axios_settle inst t of
        Inr r \<Rightarrow> Inr r
      | Inl e \<Rightarrow> Inl (if error_interceptor inst then Normalized (globalErrorResponseInterceptor e) else Raw e))"

text \<open>The enhanced error a settled request rejects with, if it rejects with one.\<close>

fun rejection :: "request_failure + axios_response \<Rightarrow> enhanced_error option" where
  "rejection (Inl (Normalized err)) = Some err"
| "rejection _ = None"

subsection \<open>Characteristic equations\<close>

lemma instances_simps [simp]:
  "error_interceptor (restAxiosInstance b)" "\<not> error_interceptor (blobAxiosInstance b)"
  "timeout_ms (restAxiosInstance b) = 15000" "timeout_ms (blobAxiosInstance b) = 15000"
  by (simp_all add: restAxiosInstance_def blobAxiosInstance_def axios_create_def)

lemma interceptor_eq:
  "globalErrorResponseInterceptor e =
     \<lparr>error_message = js_to_string (fst (classify_error e)),
      error_cause = \<lparr>originalError = e, httpStatus = snd (classify_error e), businessCode = None,
                     isAxiosError = True\<rparr>\<rparr>"
  by (simp add: globalErrorResponseInterceptor_def split: prod.split)

lemma classify_response:
  "err_response e = Some r \<Longrightarrow>
   classify_error e =
     (case js_get (resp_data r) ''message'' of
        Inr m \<Rightarrow> (if json_truthy m then m else status_template (resp_status r))
      | Inl _ \<Rightarrow> status_template (resp_status r), Some (resp_status r))"
  by (simp add: classify_error_def split: sum.split js_error.split)

lemma classify_no_response:
  "err_response e = None \<Longrightarrow>
   classify_error e =
     (if err_request e then
        (if err_code e = Some ''ECONNABORTED'' \<or> sublist ''timeout'' (err_message e)
         then JStr msg_timeout else JStr msg_network)
      else (if err_message e \<noteq> [] then JStr (err_message e) else JStr msg_unknown), None)"
  by (simp add: classify_error_def js_includes_iff_sublist)

lemma msg_timeout_neq_network: "msg_timeout \<noteq> msg_network"
  by code_simp

section \<open>Properties of the normalization layer\<close>

text \<open>
  C15: a failed response whose body has a non-empty string \<open>message\<close> member yields an
  error with exactly that message and the response's status.
\<close>

theorem interceptor_server_message:
  assumes "err_response e = Some r" and "js_get (resp_data r) ''message'' = Inr (JStr m)" and "m \<noteq> []"
  shows "error_message (globalErrorResponseInterceptor e) = m \<and>
         httpStatus (error_cause (globalErrorResponseInterceptor e)) = Some (resp_status r)"
  using assms by (simp add: interceptor_eq classify_response)

theorem interceptor_server_message_witness:
  "error_message (globalErrorResponseInterceptor
      \<lparr>err_response = Some \<lparr>resp_status = 404, resp_data = JObj [(''message'', JStr ''not found'')]\<rparr>,
       err_request = True, err_code = Some ''ERR_BAD_REQUEST'', err_message = ''Request failed''\<rparr>) = ''not found''"
  using interceptor_server_message
    [of "\<lparr>err_response = Some \<lparr>resp_status = 404, resp_data = JObj [(''message'', JStr ''not found'')]\<rparr>,
          err_request = True, err_code = Some ''ERR_BAD_REQUEST'', err_message = ''Request failed''\<rparr>"
        "\<lparr>resp_status = 404, resp_data = JObj [(''message'', JStr ''not found'')]\<rparr>" "''not found''"]
  by simp

text \<open>
  C16: a failed response whose body is \<open>null\<close> or \<open>undefined\<close>, or has no truthy
  \<open>message\<close> member (a raw text body, an empty or missing message), yields the template
  message with the status, and records the status.
\<close>

theorem interceptor_status_fallback:
  assumes "err_response e = Some r"
    and "case js_get (resp_data r) ''message'' of Inl _ \<Rightarrow> True | Inr v \<Rightarrow> \<not> json_truthy v"
  shows "error_message (globalErrorResponseInterceptor e) = msg_status_failed @ int_to_dec (resp_status r) \<and>
         httpStatus (error_cause (globalErrorResponseInterceptor e)) = Some (resp_status r)"
  using assms by (simp add: interceptor_eq classify_response status_template_def split: sum.splits)

theorem interceptor_status_fallback_witness:
  "error_message (globalErrorResponseInterceptor
      \<lparr>err_response = Some \<lparr>resp_status = 500, resp_data = JStr ''<html>Bad Gateway</html>''\<rparr>,
       err_request = True, err_code = Some ''ERR_BAD_RESPONSE'', err_message = ''Request failed''\<rparr>) =
   msg_status_failed @ ''500''"
  using interceptor_status_fallback
    [of "\<lparr>err_response = Some \<lparr>resp_status = 500, resp_data = JStr ''<html>Bad Gateway</html>''\<rparr>,
          err_request = True, err_code = Some ''ERR_BAD_RESPONSE'', err_message = ''Request failed''\<rparr>"
        "\<lparr>resp_status = 500, resp_data = JStr ''<html>Bad Gateway</html>''\<rparr>"]
  by (simp add: int_to_dec_def nat_to_dec.simps)

text \<open>
  C17: a request that was sent but got no response yields the timeout message when the
  code is \<^verbatim>\<open>ECONNABORTED\<close> or the message contains \<open>timeout\<close>, and the connectivity
  message otherwise; the two messages differ, and no status is recorded.
\<close>

theorem interceptor_no_response:
  assumes "err_response e = None" and "err_request e"
  shows "error_message (globalErrorResponseInterceptor e) =
           (if err_code e = Some ''ECONNABORTED'' \<or> sublist ''timeout'' (err_message e)
            then msg_timeout else msg_network) \<and>
         httpStatus (error_cause (globalErrorResponseInterceptor e)) = None \<and>
         msg_timeout \<noteq> msg_network"
  using assms msg_timeout_neq_network by (simp add: interceptor_eq classify_no_response)

theorem interceptor_no_response_witness:
  "error_message (globalErrorResponseInterceptor
      \<lparr>err_response = None, err_request = True, err_code = Some ''ECONNABORTED'',
       err_message = ''timeout of 15000ms exceeded''\<rparr>) = msg_timeout \<and>
   error_message (globalErrorResponseInterceptor
      \<lparr>err_response = None, err_request = True, err_code = Some ''ERR_NETWORK'',
       err_message = ''Network Error''\<rparr>) = msg_network"
proof -
  have "\<not> sublist ''timeout'' ''Network Error''" by (simp flip: js_includes_iff_sublist)
  then show ?thesis
    using interceptor_no_response
        [of "\<lparr>err_response = None, err_request = True, err_code = Some ''ECONNABORTED'',
              err_message = ''timeout of 15000ms exceeded''\<rparr>"]
      interceptor_no_response
        [of "\<lparr>err_response = None, err_request = True, err_code = Some ''ERR_NETWORK'',
              err_message = ''Network Error''\<rparr>"]
    by simp
qed

text \<open>
  C18: a request that could not be sent yields the axios error's own message, or the
  generic message when that is empty; no status is recorded.
\<close>

theorem interceptor_not_sent:
  assumes "err_response e = None" and "\<not> err_request e"
  shows "error_message (globalErrorResponseInterceptor e) =
           (if err_message e = [] then msg_unknown else err_message e) \<and>
         httpStatus (error_cause (globalErrorResponseInterceptor e)) = None"
  using assms by (simp add: interceptor_eq classify_no_response)

theorem interceptor_not_sent_witness:
  "error_message (globalErrorResponseInterceptor
      \<lparr>err_response = None, err_request = False, err_code = None, err_message = ''Invalid URL''\<rparr>) =
   ''Invalid URL''"
  using interceptor_not_sent
    [of "\<lparr>err_response = None, err_request = False, err_code = None, err_message = ''Invalid URL''\<rparr>"]
  by simp

text \<open>
  C19: every enhanced error keeps the original axios error as its cause, records the
  status exactly when a response was received, never sets a business code, and is
  marked as coming from axios.
\<close>

theorem interceptor_keeps_cause:
  "originalError (error_cause (globalErrorResponseInterceptor e)) = e \<and>
   httpStatus (error_cause (globalErrorResponseInterceptor e)) = map_option resp_status (err_response e) \<and>
   businessCode (error_cause (globalErrorResponseInterceptor e)) = None \<and>
   isAxiosError (error_cause (globalErrorResponseInterceptor e))"
  by (cases "err_response e") (simp_all add: interceptor_eq classify_response classify_no_response)

text \<open>
  C20: a request through the REST instance either resolves with a 2xx response or
  rejects with the interceptor's error for the axios error; it never rejects with a raw
  axios error.
\<close>

theorem rest_failures_normalized:
  "(case axios_call (restAxiosInstance b) t of
      Inr r \<Rightarrow> 200 \<le> resp_status r \<and> resp_status r < 300
    | Inl f \<Rightarrow> (\<exists>e. axios_settle (restAxiosInstance b) t = Inl e \<and> f = Normalized (globalErrorResponseInterceptor e)))"
  by (cases t) (auto simp: axios_call_def axios_settle_def)

text \<open>
  C21: the blob instance has no interceptor: its failures reach the caller as raw axios
  errors, never as the normalized error (here a 500 on a download).
\<close>

theorem blob_failures_raw:
  "axios_call (blobAxiosInstance b) t =
     (case axios_settle (blobAxiosInstance b) t of Inl e \<Rightarrow> Inl (Raw e) | Inr r \<Rightarrow> Inr r) \<and>
   rejection (axios_call (blobAxiosInstance b) (Responded 500 body)) = None"
  by (simp add: axios_call_def axios_settle_def split: sum.split)

text \<open>
  C22: \<^verbatim>\<open>flowResponse.message || template\<close> keeps any truthy value of the member,
  not only a string: the error's message is what \<^verbatim>\<open>new Error\<close> makes of it, so an
  object becomes \<open>[object Object]\<close> and a number its decimal text.
\<close>

theorem interceptor_nonstring_message:
  assumes "err_response e = Some r" and "js_get (resp_data r) ''message'' = Inr m" and "json_truthy m"
  shows "error_message (globalErrorResponseInterceptor e) = js_to_string m"
  using assms by (simp add: interceptor_eq classify_response)

theorem interceptor_nonstring_message_witness:
  "error_message (globalErrorResponseInterceptor
      \<lparr>err_response = Some \<lparr>resp_status = 400, resp_data = JObj [(''message'', JObj [(''detail'', JStr ''bad cron'')])]\<rparr>,
       err_request = True, err_code = Some ''ERR_BAD_REQUEST'', err_message = ''Request failed''\<rparr>) = ''[object Object]''"
  using interceptor_nonstring_message
    [of "\<lparr>err_response = Some \<lparr>resp_status = 400, resp_data = JObj [(''message'', JObj [(''detail'', JStr ''bad cron'')])]\<rparr>,
         err_request = True, err_code = Some ''ERR_BAD_REQUEST'', err_message = ''Request failed''\<rparr>"
        "\<lparr>resp_status = 400, resp_data = JObj [(''message'', JObj [(''detail'', JStr ''bad cron'')])]\<rparr>"
        "JObj [(''detail'', JStr ''bad cron'')]"]
  by simp

end
