(* ===== verification/ApiTypes.thy ===== *)
theory ApiTypes
  imports JsRuntime
begin

text \<open>
  The payload and response shapes of the REST API, from
  \<^verbatim>\<open>src/src/api/jobflow/type.ts\<close> and \<^verbatim>\<open>src/src/api/snapshot/type.ts\<close>: each
  interface is a record, each string-literal union a datatype. TypeScript erases these
  types: nothing checks a response against them at run time, so the wrappers of
  \<^verbatim>\<open>Api\<close> hand the caller whatever JSON the server sent. Field names carry a
  prefix naming their record, since several interfaces share field names.
  \<^verbatim>\<open>number\<close> fields are integers here. The request bodies are what
  \<^verbatim>\<open>JSON.stringify\<close> makes of a payload; the encodings below list the members in
  the order the interfaces declare them.
\<close>

subsection \<open>Job-flow types\<close>

record 'a flow_response =
  fr_statusCode :: int
  fr_message :: string
  fr_data :: 'a
  fr_timestamp :: string

datatype exec_status = RUNNING | SUCCESS | FAILED | PENDING

datatype enabled_flag = Enabled_1 | Enabled_0

record flow_info_dto =
  fi_flowDefinitionId :: string
  fi_flowName :: string
  fi_cronConfig :: string
  fi_lastExecutionExecStatus :: exec_status
  fi_lastExecutionDuration :: string
  fi_enabled :: enabled_flag

datatype source_type = MANUAL | NODE_OUTPUT

record field_schema =
  fs_sourceType :: source_type
  fs_typeReference :: string
  fs_description :: string
  fs_group :: string
  fs_value :: json

text \<open>
  \<^verbatim>\<open>fieldSchemaMap\<close> is declared a \<^verbatim>\<open>Map<string, FieldSchema>\<close>, but the type is
  erased: at run time the member holds either a \<^verbatim>\<open>Map\<close> instance built by the client
  (its entries in insertion order) or the plain object a response body decoded to.
\<close>

datatype schema_map = MapInstance "(string \<times> field_schema) list" | PlainObject "(string \<times> json) list"

record field_schema_dto =
  fsd_nodeId :: string
  fsd_nodeName :: string
  fsd_fieldSchemaMap :: schema_map

record flow_node =
  node_nodeId :: string
  node_name :: string
  node_nextNodeIds :: "string list"

record create_flow_request =
  cf_flowName :: string
  cf_cron :: string
  cf_description :: string
  cf_nodeList :: "flow_node list"
  cf_fieldSchemaDTOList :: "field_schema_dto list"

record flow_definition =
  def_name :: string
  def_nodes :: "flow_node list"

record flow_definition_entity =
  fde_flowDefinitionId :: string
  fde_name :: string
  fde_description :: string
  fde_definition :: flow_definition
  fde_cronConfig :: string
  fde_enabled :: int

record node_info =
  ni_name :: string
  ni_description :: string
  ni_group :: string
  ni_inputParams :: "string list"
  ni_outputParams :: "string list"

record flow_form_data =
  step1_nodeList :: "flow_node list"
  step2_fieldSchemaDTOList :: "field_schema_dto list"
  step3_flowName :: string
  step3_cron :: string
  step3_description :: string

subsection \<open>Snapshot types\<close>

record snapshot_meta_entity =
  sm_snapshotMetaId :: string
  sm_sourceDirectory :: string
  sm_backupRepository :: string
  sm_createdAt :: string
  sm_snapshotId :: string
  sm_fileCount :: string
  sm_dirCount :: string
  sm_snapshotSizeBytes :: string
  sm_hostname :: string
  sm_username :: string

datatype item_type = File | Dir

record snapshot_item_dto =
  si_name :: string
  si_type :: item_type
  si_path :: string
  si_size :: int
  si_ctime :: string

record restore_request =
  rr_snapshotMetaEntity :: snapshot_meta_entity
  rr_snapshotItemDTOList :: "snapshot_item_dto list"

record group_data =
  gd_sourceDirectory :: string
  gd_snapshotCount :: int
  gd_totalFileCount :: int
  gd_totalDirCount :: int
  gd_totalSize :: int
  gd_snapshots :: "snapshot_meta_entity list"

subsection \<open>Request bodies\<close>

definition source_type_json :: "source_type \<Rightarrow> json" where
  "source_type_json t = JStr (case t of MANUAL \<Rightarrow> ''MANUAL'' | NODE_OUTPUT \<Rightarrow> ''NODE_OUTPUT'')"

definition field_schema_json :: "field_schema \<Rightarrow> json" where
  "field_schema_json f =
     JObj [(''sourceType'', source_type_json (fs_sourceType f)), (''typeReference'', JStr (fs_typeReference f)),
           (''description'', JStr (fs_description f)), (''group'', JStr (fs_group f)),
           (''value'', fs_value f)]"

text \<open>
  \<^verbatim>\<open>JSON.stringify\<close> serializes only the own enumerable properties of an object, and a
  \<^verbatim>\<open>Map\<close> keeps its entries elsewhere: a \<^verbatim>\<open>Map\<close> becomes \<open>{}\<close>, a plain object
  its members.
\<close>

definition schema_map_json :: "schema_map \<Rightarrow> json" where
  "schema_map_json m = (case m of MapInstance _ \<Rightarrow> JObj [] | PlainObject kvs \<Rightarrow> JObj kvs)"

definition field_schema_dto_json :: "field_schema_dto \<Rightarrow> json" where
  "field_schema_dto_json d =
     JObj [(''nodeId'', JStr (fsd_nodeId d)), (''nodeName'', JStr (fsd_nodeName d)),
           (''fieldSchemaMap'', schema_map_json (fsd_fieldSchemaMap d))]"

definition flow_node_json :: "flow_node \<Rightarrow> json" where
  "flow_node_json n =
     JObj [(''nodeId'', JStr (node_nodeId n)), (''name'', JStr (node_name n)),
           (''nextNodeIds'', JArr (map JStr (node_nextNodeIds n)))]"

definition create_flow_request_json :: "create_flow_request \<Rightarrow> json" where
  "create_flow_request_json c =
     JObj [(''flowName'', JStr (cf_flowName c)), (''cron'', JStr (cf_cron c)),
           (''description'', JStr (cf_description c)),
           (''nodeList'', JArr (map flow_node_json (cf_nodeList c))),
           (''fieldSchemaDTOList'', JArr (map field_schema_dto_json (cf_fieldSchemaDTOList c)))]"

definition exec_status_json :: "exec_status \<Rightarrow> json" where
  "exec_status_json x =
     JStr (case x of RUNNING \<Rightarrow> ''RUNNING'' | SUCCESS \<Rightarrow> ''SUCCESS'' | FAILED \<Rightarrow> ''FAILED'' | PENDING \<Rightarrow> ''PENDING'')"

definition flow_info_dto_json :: "flow_info_dto \<Rightarrow> json" where
  "flow_info_dto_json f =
     JObj [(''flowDefinitionId'', JStr (fi_flowDefinitionId f)), (''flowName'', JStr (fi_flowName f)),
           (''cronConfig'', JStr (fi_cronConfig f)),
           (''lastExecutionExecStatus'', exec_status_json (fi_lastExecutionExecStatus f)),
           (''lastExecutionDuration'', JStr (fi_lastExecutionDuration f)),
           (''enabled'', JNum (case fi_enabled f of Enabled_1 \<Rightarrow> 1 | Enabled_0 \<Rightarrow> 0))]"

definition snapshot_meta_json :: "snapshot_meta_entity \<Rightarrow> json" where
  "snapshot_meta_json m =
     JObj [(''snapshotMetaId'', JStr (sm_snapshotMetaId m)), (''sourceDirectory'', JStr (sm_sourceDirectory m)),
           (''backupRepository'', JStr (sm_backupRepository m)), (''createdAt'', JStr (sm_createdAt m)),
           (''snapshotId'', JStr (sm_snapshotId m)), (''fileCount'', JStr (sm_fileCount m)),
           (''dirCount'', JStr (sm_dirCount m)), (''snapshotSizeBytes'', JStr (sm_snapshotSizeBytes m)),
           (''hostname'', JStr (sm_hostname m)), (''username'', JStr (sm_username m))]"

definition snapshot_item_json :: "snapshot_item_dto \<Rightarrow> json" where
  "snapshot_item_json i =
     JObj [(''name'', JStr (si_name i)), (''type'', JStr (case si_type i of File \<Rightarrow> ''file'' | Dir \<Rightarrow> ''dir'')),
           (''path'', JStr (si_path i)), (''size'', JNum (si_size i)), (''ctime'', JStr (si_ctime i))]"

definition restore_request_json :: "restore_request \<Rightarrow> json" where
  "restore_request_json r =
     JObj [(''snapshotMetaEntity'', snapshot_meta_json (rr_snapshotMetaEntity r)),
           (''snapshotItemDTOList'', JArr (map snapshot_item_json (rr_snapshotItemDTOList r)))]"

end
