(* ===== verification/Api.thy ===== *)
theory Api
  imports Http ApiTypes
begin

text \<open>
  The REST wrappers of \<^verbatim>\<open>src/src/api/jobflow/api.ts\<close> and
  \<^verbatim>\<open>src/src/api/snapshot/api.ts\<close>. Each wrapper is a request (method, URL, body,
  query parameters, response type) and one of two ways of awaiting it: the wrappers
  that return data evaluate \<^verbatim>\<open>response.data.data\<close>, which throws a TypeError when the
  body of a successful response is \<open>null\<close> or \<open>undefined\<close>; the others discard
  the response. What the server and the network do with a request is a function
  \<open>net\<close> from requests to transport outcomes. All wrappers use the REST instance but
  \<^verbatim>\<open>getDownloadResult\<close>, which uses the blob instance.
\<close>

datatype http_method = GET | POST

datatype payload =
    NoBody
  | NullBody
  | FlowNodes "flow_node list"
  | FieldSchemas "field_schema_dto list"
  | CreateFlow create_flow_request
  | FlowInfo flow_info_dto
  | SnapshotMeta snapshot_meta_entity
  | Restore restore_request

record api_request =
  req_method :: http_method
  req_url :: string
  req_body :: payload
  req_params :: "(string \<times> string) list"
  req_blob :: bool

type_synonym network = "api_request \<Rightarrow> transport"

text \<open>What a promise returned by a wrapper rejects with.\<close>

datatype api_failure = Rejected request_failure | Thrown js_error

definition payload_json :: "payload \<Rightarrow> json option" where
  "payload_json p =
     (case p of
        NoBody \<Rightarrow> None
      | NullBody \<Rightarrow> Some JNull
      | FlowNodes ns \<Rightarrow> Some (JArr (map flow_node_json ns))
      | FieldSchemas ds \<Rightarrow> Some (JArr (map field_schema_dto_json ds))
      | CreateFlow c \<Rightarrow> Some (create_flow_request_json c)
      | FlowInfo f \<Rightarrow> Some (flow_info_dto_json f)
      | SnapshotMeta m \<Rightarrow> Some (snapshot_meta_json m)
      | Restore r \<Rightarrow> Some (restore_request_json r))"

subsection \<open>Sending and awaiting\<close>

definition request :: "http_method \<Rightarrow> string \<Rightarrow> payload \<Rightarrow> api_request" where
  "request m u p = \<lparr>req_method = m, req_url = u, req_body = p, req_params = [], req_blob = False\<rparr>"

definition rest_send :: "string option \<Rightarrow> network \<Rightarrow> api_request \<Rightarrow> request_failure + axios_response" where
  "rest_send b net rq = axios_call (restAxiosInstance b) (net rq)"

text \<open>\<^verbatim>\<open>const response = await ...; return response.data.data;\<close>\<close>

definition rest_data :: "string option \<Rightarrow> network \<Rightarrow> api_request \<Rightarrow> api_failure + json" where
  "rest_data b net rq =
     (case rest_send b net rq of
        Inl f \<Rightarrow> Inl (Rejected f)
      | Inr r \<Rightarrow> (case js_get (resp_data r) ''data'' of Inl e \<Rightarrow> Inl (Thrown e) | Inr v \<Rightarrow> Inr v))"

text \<open>\<^verbatim>\<open>await ...;\<close> with the response discarded.\<close>

definition rest_void :: "string option \<Rightarrow> network \<Rightarrow> api_request \<Rightarrow> api_failure + unit" where
  "rest_void b net rq = (case rest_send b net rq of Inl f \<Rightarrow> Inl (Rejected f) | Inr _ \<Rightarrow> Inr ())"

subsection \<open>Job-flow wrappers\<close>

definition flowEditorUrl :: string where "flowEditorUrl = ''/flow-editor''"

definition flowInfoUrl :: string where "flowInfoUrl = ''/flow-info''"

definition validNodes_req :: "flow_node list \<Rightarrow> api_request" where
  "validNodes_req ps = request POST (flowEditorUrl @ ''/valid-nodes'') (FlowNodes ps)"

definition validNodes :: "string option \<Rightarrow> network \<Rightarrow> flow_node list \<Rightarrow> api_failure + unit" where
  "validNodes b net ps = rest_void b net (validNodes_req ps)"

definition getFieldSchema_req :: "flow_node list \<Rightarrow> api_request" where
  "getFieldSchema_req ps = request POST (flowEditorUrl @ ''/get-field-schema'') (FlowNodes ps)"

definition getFieldSchema :: "string option \<Rightarrow> network \<Rightarrow> flow_node list \<Rightarrow> api_failure + json" where
  "getFieldSchema b net ps = rest_data b net (getFieldSchema_req ps)"

definition validFieldSchema_req :: "field_schema_dto list \<Rightarrow> api_request" where
  "validFieldSchema_req ps = request POST (flowEditorUrl @ ''/valid-field-schema'') (FieldSchemas ps)"

definition validFieldSchema :: "string option \<Rightarrow> network \<Rightarrow> field_schema_dto list \<Rightarrow> api_failure + unit" where
  "validFieldSchema b net ps = rest_void b net (validFieldSchema_req ps)"

definition createFlow_req :: "create_flow_request \<Rightarrow> api_request" where
  "createFlow_req p = request POST (flowEditorUrl @ ''/create-flow'') (CreateFlow p)"

definition createFlow :: "string option \<Rightarrow> network \<Rightarrow> create_flow_request \<Rightarrow> api_failure + json" where
  "createFlow b net p = rest_data b net (createFlow_req p)"

definition getAllNodes_req :: api_request where
  "getAllNodes_req = request GET (flowEditorUrl @ ''/get-all-nodes'') NoBody"

definition getAllNodes :: "string option \<Rightarrow> network \<Rightarrow> api_failure + json" where
  "getAllNodes b net = rest_data b net getAllNodes_req"

definition getAllFlowInfo_req :: api_request where
  "getAllFlowInfo_req = request GET (flowInfoUrl @ ''/get-all-flow-info'') NoBody"

definition getAllFlowInfo :: "string option \<Rightarrow> network \<Rightarrow> api_failure + json" where
  "getAllFlowInfo b net = rest_data b net getAllFlowInfo_req"

definition enableFlow_req :: "flow_info_dto \<Rightarrow> api_request" where
  "enableFlow_req p = request POST (flowInfoUrl @ ''/enable-flow'') (FlowInfo p)"

definition enableFlow :: "string option \<Rightarrow> network \<Rightarrow> flow_info_dto \<Rightarrow> api_failure + unit" where
  "enableFlow b net p = rest_void b net (enableFlow_req p)"

definition disableFlow_req :: "flow_info_dto \<Rightarrow> api_request" where
  "disableFlow_req p = request POST (flowInfoUrl @ ''/disable-flow'') (FlowInfo p)"

definition disableFlow :: "string option \<Rightarrow> network \<Rightarrow> flow_info_dto \<Rightarrow> api_failure + unit" where
  "disableFlow b net p = rest_void b net (disableFlow_req p)"

definition deleteFlow_req :: "flow_info_dto \<Rightarrow> api_request" where
  "deleteFlow_req p = request POST (flowInfoUrl @ ''/delete-flow'') (FlowInfo p)"

definition deleteFlow :: "string option \<Rightarrow> network \<Rightarrow> flow_info_dto \<Rightarrow> api_failure + unit" where
  "deleteFlow b net p = rest_void b net (deleteFlow_req p)"

subsection \<open>Snapshot wrappers\<close>

definition resticUrl :: string where "resticUrl = ''/restic''"

definition getAllSnapshots_req :: api_request where
  "getAllSnapshots_req = request GET (resticUrl @ ''/get-all-snapshots'') NoBody"

definition getAllSnapshots :: "string option \<Rightarrow> network \<Rightarrow> api_failure + json" where
  "getAllSnapshots b net = rest_data b net getAllSnapshots_req"

definition getSnapshotItems_req :: "snapshot_meta_entity \<Rightarrow> string \<Rightarrow> api_request" where
  "getSnapshotItems_req m flt =
     (request POST (resticUrl @ ''/get-snapshot-items'') (SnapshotMeta m))\<lparr>req_params := [(''filter'', flt)]\<rparr>"

definition getSnapshotItems :: "string option \<Rightarrow> network \<Rightarrow> snapshot_meta_entity \<Rightarrow> string \<Rightarrow> api_failure + json" where
  "getSnapshotItems b net m flt = rest_data b net (getSnapshotItems_req m flt)"

definition submitDownloadJob_req :: "restore_request \<Rightarrow> api_request" where
  "submitDownloadJob_req p = request POST (resticUrl @ ''/submit-download-job'') (Restore p)"

definition submitDownloadJob :: "string option \<Rightarrow> network \<Rightarrow> restore_request \<Rightarrow> api_failure + json" where
  "submitDownloadJob b net p = rest_data b net (submitDownloadJob_req p)"

text \<open>Query values are sent as axios serializes them: a boolean as \<open>true\<close>/\<open>false\<close>.\<close>

definition getDownloadResult_req :: "string \<Rightarrow> bool \<Rightarrow> api_request" where
  "getDownloadResult_req jobId isPreview =
     \<lparr>req_method = POST, req_url = resticUrl @ ''/get-download-result'', req_body = NullBody,
      req_params = [(''jobId'', jobId), (''isPreview'', if isPreview then ''true'' else ''false'')],
      req_blob = True\<rparr>"

definition getDownloadResult :: "string option \<Rightarrow> network \<Rightarrow> string \<Rightarrow> bool \<Rightarrow> api_failure + axios_response" where
  "getDownloadResult b net jobId isPreview =
     (case axios_call (blobAxiosInstance b) (net (getDownloadResult_req jobId isPreview)) of
        Inl f \<Rightarrow> Inl (Rejected f)
      | Inr r \<Rightarrow> Inr r)"

subsection \<open>Characteristic equations\<close>

lemma rest_send_eq:
  "rest_send b net rq =
     (case axios_settle (restAxiosInstance b) (net rq) of
        Inl e \<Rightarrow> Inl (Normalized (globalErrorResponseInterceptor e))
      | Inr r \<Rightarrow> Inr r)"
  by (simp add: rest_send_def axios_call_def split: sum.split)

lemma rest_void_no_throw: "rest_void b net rq \<noteq> Inl (Thrown e)"
  by (simp add: rest_void_def split: sum.split)

lemmas api_reqs =
  validNodes_req_def getFieldSchema_req_def validFieldSchema_req_def createFlow_req_def
  getAllNodes_req_def getAllFlowInfo_req_def enableFlow_req_def disableFlow_req_def
  deleteFlow_req_def getAllSnapshots_req_def getSnapshotItems_req_def submitDownloadJob_req_def
  getDownloadResult_req_def request_def flowEditorUrl_def flowInfoUrl_def resticUrl_def

section \<open>Properties of the REST wrappers\<close>

text \<open>
  C23: a wrapper that returns \<^verbatim>\<open>response.data.data\<close> resolves with the \<open>data\<close> member
  of a 2xx body; it rejects with the interceptor's error when axios rejects; and it
  rejects with a TypeError, not a normalized error, exactly when a 2xx response has a
  \<open>null\<close> or \<open>undefined\<close> body.
\<close>

theorem rest_data_outcome:
  "(case rest_data b net rq of
      Inr v \<Rightarrow> (\<exists>r. axios_settle (restAxiosInstance b) (net rq) = Inr r \<and> js_get (resp_data r) ''data'' = Inr v)
    | Inl (Rejected f) \<Rightarrow>
        (\<exists>e. axios_settle (restAxiosInstance b) (net rq) = Inl e \<and> f = Normalized (globalErrorResponseInterceptor e))
    | Inl (Thrown err) \<Rightarrow>
        (\<exists>r. axios_settle (restAxiosInstance b) (net rq) = Inr r \<and> resp_data r \<in> {JNull, JUndefined}))"
proof (cases "axios_settle (restAxiosInstance b) (net rq)")
  case (Inl e)
  then show ?thesis by (simp add: rest_data_def rest_send_eq)
next
  case (Inr r)
  then show ?thesis
    by (cases "js_get (resp_data r) ''data''") (auto simp: rest_data_def rest_send_eq js_get_Inl_iff)
qed

text \<open>
  C24: the wrappers that discard the response never throw: they resolve exactly when
  axios resolves, and otherwise reject with the interceptor's error.
\<close>

theorem void_wrappers_outcome:
  "(validNodes b net ns = Inr () \<longleftrightarrow> (\<exists>r. axios_settle (restAxiosInstance b) (net (validNodes_req ns)) = Inr r)) \<and>
   (\<forall>e. validNodes b net ns \<noteq> Inl (Thrown e)) \<and> (\<forall>e. validFieldSchema b net ds \<noteq> Inl (Thrown e)) \<and>
   (\<forall>e. enableFlow b net f \<noteq> Inl (Thrown e)) \<and> (\<forall>e. disableFlow b net f \<noteq> Inl (Thrown e)) \<and>
   (\<forall>e. deleteFlow b net f \<noteq> Inl (Thrown e))"
  by (auto simp: validNodes_def validFieldSchema_def enableFlow_def disableFlow_def deleteFlow_def
      rest_void_no_throw rest_void_def rest_send_eq split: sum.splits)

text \<open>The thirteen wrappers send to thirteen different endpoints.\<close>

theorem endpoints_distinct:
  "distinct (map req_url
     [validNodes_req ns, getFieldSchema_req ns, validFieldSchema_req ds, createFlow_req c, getAllNodes_req,
      getAllFlowInfo_req, enableFlow_req f, disableFlow_req f, deleteFlow_req f, getAllSnapshots_req,
      getSnapshotItems_req m flt, submitDownloadJob_req r, getDownloadResult_req j p])"
  by (simp add: api_reqs)

text \<open>
  \<^verbatim>\<open>getDownloadResult\<close> asks for a blob with the job id and the preview flag as
  query parameters, through the blob instance: it never rejects with a normalized error,
  and a failed download reaches the caller as the raw axios error.
\<close>

theorem download_failures_raw:
  "req_params (getDownloadResult_req j p) = [(''jobId'', j), (''isPreview'', if p then ''true'' else ''false'')] \<and>
   req_blob (getDownloadResult_req j p) \<and>
   (\<forall>err. getDownloadResult b net j p \<noteq> Inl (Rejected (Normalized err))) \<and>
   getDownloadResult b (\<lambda>_. Responded 404 body) j p =
     Inl (Rejected (Raw \<lparr>err_response = Some \<lparr>resp_status = 404, resp_data = body\<rparr>, err_request = True,
        err_code = Some ''ERR_BAD_REQUEST'', err_message = ''Request failed with status code 404''\<rparr>))"
  by (simp add: getDownloadResult_def getDownloadResult_req_def axios_call_def axios_settle_def
      int_to_dec_def nat_to_dec.simps split: sum.split)

end
