(* ===== verification/Router.thy ===== *)
theory Router
  imports JsRuntime
begin

text \<open>
  The route table of \<^verbatim>\<open>src/src/router/index.ts\<close> and the part of vue-router that
  reads it. Each \<^verbatim>\<open>RouteRecordRaw\<close> is a record; a lazy component
  \<^verbatim>\<open>() => import('../views/X.vue')\<close> is represented by the module path it loads.
  The matcher and the redirect resolution are vue-router's (modelled from its
  documentation): static paths match case-insensitively and with an optional trailing
  slash (the defaults \<^verbatim>\<open>sensitive: false\<close>, \<^verbatim>\<open>strict: false\<close>), a matched record with a
  \<^verbatim>\<open>redirect\<close> is replaced by the resolution of its target, and a path no record
  matches resolves to an empty match. Redirect resolution does not bound the number of
  redirects, so it is a \<open>partial_function\<close> in the option monad: a cycle of redirects is
  the value \<open>None\<close>. Named navigation to an unknown name is the matcher's error.
\<close>

record route_meta =
  meta_title :: string
  meta_icon :: "string option"

record route_record =
  rt_path :: string
  rt_redirect :: "string option"
  rt_name :: "string option"
  rt_component :: "string option"
  rt_meta :: route_meta

definition route_root :: route_record where
  "route_root =
     \<lparr>rt_path = ''/'', rt_redirect = Some ''/dashboard'', rt_name = None, rt_component = None,
      rt_meta = \<lparr>meta_title = utf8 [233, 166, 150, 233, 161, 181], meta_icon = None\<rparr>\<rparr>"

definition route_dashboard :: route_record where
  "route_dashboard =
     \<lparr>rt_path = ''/dashboard'', rt_redirect = None, rt_name = Some ''Dashboard'',
      rt_component = Some ''../views/Dashboard.vue'',
      rt_meta = \<lparr>meta_title = utf8 [228, 187, 170, 232, 161, 168, 230, 157, 191], meta_icon = Some ''dashboard''\<rparr>\<rparr>"

definition route_jobflow :: route_record where
  "route_jobflow =
     \<lparr>rt_path = ''/job-flow'', rt_redirect = None, rt_name = Some ''JobFlow'',
      rt_component = Some ''../views/JobFlow.vue'',
      rt_meta = \<lparr>meta_title = utf8 [228, 187, 187, 229, 138, 161, 230, 181, 129, 231, 174, 161, 231, 144, 134],
                 meta_icon = Some ''jobFlow''\<rparr>\<rparr>"

definition route_restic :: route_record where
  "route_restic =
     \<lparr>rt_path = ''/restic'', rt_redirect = None, rt_name = Some ''Restic'',
      rt_component = Some ''../views/Restic.vue'',
      rt_meta = \<lparr>meta_title = utf8 [229, 164, 135, 228, 187, 189, 231, 174, 161, 231, 144, 134],
                 meta_icon = Some ''restic''\<rparr>\<rparr>"

definition routes :: "route_record list" where
  "routes = [route_root, route_dashboard, route_jobflow, route_restic]"

subsection \<open>The matcher\<close>

text \<open>ASCII case folding of one character, as a code point.\<close>

definition fold_case :: "char \<Rightarrow> nat" where
  "fold_case c = (let n = (of_char c :: nat) in if 65 \<le> n \<and> n \<le> 90 then n + 32 else n)"

text \<open>
  A static path matches itself case-insensitively and, when it does not end with a slash,
  also followed by one slash (the pattern \<^verbatim>\<open>^/dashboard/?$\<close>; the root's is
  \<^verbatim>\<open>^/$\<close>).
\<close>

definition path_matches :: "string \<Rightarrow> string \<Rightarrow> bool" where
  "path_matches rp p \<longleftrightarrow>
     map fold_case p = map fold_case rp \<or>
     (\<not> (rp \<noteq> [] \<and> last rp = CHR ''/'') \<and> map fold_case p = map fold_case (rp @ ''/''))"

text \<open>
  vue-router ranks the matchers by a score of their paths; the static paths of this
  table are pairwise distinct under the matching, so the first match is the only one.
\<close>

definition match_route :: "route_record list \<Rightarrow> string \<Rightarrow> route_record option" where
  "match_route rs p = find (\<lambda>r. path_matches (rt_path r) p) rs"

datatype resolution = NoMatch string | Matched route_record

partial_function (option) resolve_path :: "route_record list \<Rightarrow> string \<Rightarrow> resolution option" where
  "resolve_path rs p =
     (case match_route rs p of
        None \<Rightarrow> Some (NoMatch p)
      | Some r \<Rightarrow> (case rt_redirect r of None \<Rightarrow> Some (Matched r) | Some t \<Rightarrow> resolve_path rs t))"

datatype router_error = MatcherNotFound string

definition resolve_name :: "route_record list \<Rightarrow> string \<Rightarrow> router_error + route_record" where
  "resolve_name rs n = (case find (\<lambda>r. rt_name r = Some n) rs of None \<Rightarrow> Inl (MatcherNotFound n) | Some r \<Rightarrow> Inr r)"

subsection \<open>The router instance\<close>

text \<open>
  \<^verbatim>\<open>createRouter({history: createWebHistory(import.meta.env.BASE_URL), routes})\<close>.
  \<^verbatim>\<open>createWebHistory\<close> keeps the normalized base: \<^verbatim>\<open>/\<close> when none is given, a
  leading slash added, the trailing slash removed. The location the router resolves at
  start-up is the browser's path name with the base stripped when it begins with it
  (compared case-insensitively), \<^verbatim>\<open>/\<close> when nothing is left; a path outside the base
  is resolved as it is. Query and hash are not modelled.
\<close>

definition normalize_base :: "string \<Rightarrow> string" where
  "normalize_base b =
     (let b1 = (if b = [] then ''/'' else b);
          b2 = (if hd b1 \<noteq> CHR ''/'' \<and> hd b1 \<noteq> CHR ''#'' then CHR ''/'' # b1 else b1)
      in if last b2 = CHR ''/'' then butlast b2 else b2)"

definition strip_base :: "string \<Rightarrow> string \<Rightarrow> string" where
  "strip_base base p =
     (if base = [] \<or> \<not> prefix (map fold_case base) (map fold_case p) then p
      else (case drop (length base) p of [] \<Rightarrow> ''/'' | r \<Rightarrow> r))"

text \<open>The router: the base its history keeps, and its route table.\<close>

record router =
  router_base :: string
  router_routes :: "route_record list"

definition createWebHistory :: "string \<Rightarrow> string" where
  "createWebHistory b = normalize_base b"

definition createRouter :: "string \<Rightarrow> route_record list \<Rightarrow> router" where
  "createRouter h rs = \<lparr>router_base = h, router_routes = rs\<rparr>"

definition router :: "string \<Rightarrow> router" where
  "router base_url = createRouter (createWebHistory base_url) routes"

definition initial_location :: "router \<Rightarrow> string \<Rightarrow> resolution option" where
  "initial_location r pathname = resolve_path (router_routes r) (strip_base (router_base r) pathname)"

text \<open>The table and the matcher, unfolded for evaluation by \<open>simp\<close>.\<close>


lemmas route_defs = routes_def route_root_def route_dashboard_def route_jobflow_def route_restic_def
lemmas matcher_defs = match_route_def path_matches_def fold_case_def

lemma resolve_dashboard [simp]: "resolve_path routes ''/dashboard'' = Some (Matched route_dashboard)"
  by (simp add: resolve_path.simps matcher_defs route_defs)

lemma match_route_in: "match_route rs p = Some r \<Longrightarrow> r \<in> set rs"
  by (auto simp: match_route_def find_Some_iff)

lemma routes_cases: "r \<in> set routes \<Longrightarrow> r = route_root \<or> r = route_dashboard \<or> r = route_jobflow \<or> r = route_restic"
  by (simp add: routes_def)

lemma strip_base_append: "p \<noteq> [] \<Longrightarrow> strip_base b (b @ p) = p"
  by (cases p) (simp_all add: strip_base_def)

text \<open>
  With Vite's default base \<^verbatim>\<open>/\<close> the location is resolved as it is; under a base
  \<^verbatim>\<open>/panel/\<close> the bare base is the root, the base is matched case-insensitively, and
  a path outside it is not stripped.
\<close>

lemma router_default_base: "initial_location (router ''/'') p = resolve_path routes p"
  by (simp add: initial_location_def router_def createRouter_def createWebHistory_def normalize_base_def strip_base_def)

lemma router_panel_locations:
  "initial_location (router ''/panel/'') ''/panel'' = Some (Matched route_dashboard) \<and>
   initial_location (router ''/panel/'') ''/PANEL/restic'' = Some (Matched route_restic) \<and>
   initial_location (router ''/panel/'') ''/other'' = Some (NoMatch ''/other'')"
  by (simp add: initial_location_def router_def createRouter_def createWebHistory_def normalize_base_def
      strip_base_def resolve_path.simps route_defs matcher_defs)

section \<open>Properties of the route table\<close>

text \<open>
  C7: the router resolves the application's routes the same under any deployment base:
  the browser location made of the normalized \<^verbatim>\<open>BASE_URL\<close> followed by a route path
  resolves as that path does.
\<close>

theorem router_base_roundtrip:
  assumes "p \<noteq> []"
  shows "initial_location (router b) (normalize_base b @ p) = resolve_path routes p"
  using assms by (simp add: initial_location_def router_def createRouter_def createWebHistory_def strip_base_append)

theorem router_base_roundtrip_witness:
  "initial_location (router ''/panel/'') ''/panel/job-flow'' = Some (Matched route_jobflow)"
proof -
  have "normalize_base ''/panel/'' = ''/panel''" by (simp add: normalize_base_def)
  then show ?thesis
    using router_base_roundtrip [of "''/job-flow''" "''/panel/''"]
    by (simp add: resolve_path.simps route_defs matcher_defs)
qed

text \<open>
  The root path redirects to the dashboard: resolving \<open>/\<close> yields the record named
  \<open>Dashboard\<close>, whose component is \<^verbatim>\<open>Dashboard.vue\<close>.
\<close>

theorem root_redirects_dashboard:
  "resolve_path routes ''/'' = Some (Matched route_dashboard) \<and>
   rt_name route_dashboard = Some ''Dashboard'' \<and> rt_component route_dashboard = Some ''../views/Dashboard.vue''"
  by (simp add: resolve_path.simps route_defs matcher_defs)

text \<open>
  C28: resolution returns on every path, whatever its text: a path that no record matches
  resolves to the empty match, and any other path to a record of the table with no
  redirect and with a component to render (the redirects of the table form no cycle).
\<close>

theorem resolve_path_total:
  "\<exists>x. resolve_path routes p = Some x \<and>
     (case x of NoMatch q \<Rightarrow> q = p \<and> match_route routes p = None
      | Matched r \<Rightarrow> r \<in> set routes \<and> rt_redirect r = None \<and> rt_component r \<noteq> None)"
proof (cases "match_route routes p")
  case None
  then show ?thesis by (simp add: resolve_path.simps)
next
  case (Some r)
  then have "r \<in> set routes" by (rule match_route_in)
  then consider "r = route_root" | "r \<in> set routes" "rt_redirect r = None" "rt_component r \<noteq> None"
    using routes_cases by (auto simp: route_defs)
  then show ?thesis
  proof cases
    case 1
    with Some have "resolve_path routes p = Some (Matched route_dashboard)"
      by (simp add: resolve_path.simps [of _ p] route_root_def resolve_dashboard)
    then show ?thesis by (simp add: route_defs)
  next
    case 2
    with Some show ?thesis by (simp add: resolve_path.simps [of _ p])
  qed
qed

text \<open>
  C29: at most one record matches any path, under the case-insensitive, trailing-slash
  tolerant matching; so the ranking of matchers by vue-router cannot change which
  record a path resolves to.
\<close>

theorem match_unambiguous: "length (filter (\<lambda>r. path_matches (rt_path r) p) routes) \<le> 1"
proof -
  define q where "q = map fold_case p"
  have "path_matches rp p \<longleftrightarrow>
          q = map fold_case rp \<or> (\<not> (rp \<noteq> [] \<and> last rp = CHR ''/'') \<and> q = map fold_case (rp @ ''/''))" for rp
    by (simp add: path_matches_def q_def)
  then show ?thesis by (auto simp: route_defs fold_case_def)
qed

text \<open>
  C30: navigation by name and by path agree: the name of a record resolves to it, and
  so does its path.
\<close>

theorem resolve_name_roundtrip:
  assumes "r \<in> set routes" "rt_name r = Some n"
  shows "resolve_name routes n = Inr r \<and> resolve_path routes (rt_path r) = Some (Matched r)"
proof -
  from assms(1) have "r = route_root \<or> r = route_dashboard \<or> r = route_jobflow \<or> r = route_restic"
    by (rule routes_cases)
  then show ?thesis
  proof (elim disjE)
    assume "r = route_root"
    with assms(2) show ?thesis by (simp add: route_root_def)
  next
    assume r: "r = route_dashboard"
    with assms(2) have "n = ''Dashboard''" by (simp add: route_dashboard_def)
    with r show ?thesis by (simp add: resolve_name_def resolve_path.simps route_defs matcher_defs)
  next
    assume r: "r = route_jobflow"
    with assms(2) have "n = ''JobFlow''" by (simp add: route_jobflow_def)
    with r show ?thesis by (simp add: resolve_name_def resolve_path.simps route_defs matcher_defs)
  next
    assume r: "r = route_restic"
    with assms(2) have "n = ''Restic''" by (simp add: route_restic_def)
    with r show ?thesis by (simp add: resolve_name_def resolve_path.simps route_defs matcher_defs)
  qed
qed

theorem resolve_name_roundtrip_witness:
  "route_jobflow \<in> set routes \<and> rt_name route_jobflow = Some ''JobFlow'' \<and>
   resolve_name routes ''JobFlow'' = Inr route_jobflow"
  using resolve_name_roundtrip [of route_jobflow "''JobFlow''"] by (simp add: route_defs)

text \<open>
  C31: the table has no catch-all record: a path resolves to the empty match exactly when
  it is none of the table's paths, compared case-insensitively and with an optional
  trailing slash after a path that does not end with one; a name is the matcher's error
  exactly when it is none of the three names, compared case-sensitively.
\<close>

theorem router_errors:
  "(resolve_path routes p = Some (NoMatch p) \<longleftrightarrow>
      map fold_case p \<notin> set (map (map fold_case)
        [''/'', ''/dashboard'', ''/dashboard/'', ''/job-flow'', ''/job-flow/'', ''/restic'', ''/restic/''])) \<and>
   (resolve_name routes n = Inl (MatcherNotFound n) \<longleftrightarrow> n \<notin> {''Dashboard'', ''JobFlow'', ''Restic''})"
proof
  have none: "resolve_path routes p = Some (NoMatch p) \<longleftrightarrow> match_route routes p = None"
  proof (cases "match_route routes p")
    case None
    then show ?thesis by (simp add: resolve_path.simps)
  next
    case (Some r)
    then have "r \<in> set routes" by (rule match_route_in)
    then have "r = route_root \<or> r = route_dashboard \<or> r = route_jobflow \<or> r = route_restic"
      by (rule routes_cases)
    then show ?thesis
    proof (elim disjE)
      assume "r = route_root"
      with Some have "resolve_path routes p = Some (Matched route_dashboard)"
        by (simp add: resolve_path.simps [of _ p] route_root_def resolve_dashboard)
      with Some show ?thesis by simp
    next
      assume "r = route_dashboard"
      with Some show ?thesis by (simp add: resolve_path.simps [of _ p] route_dashboard_def)
    next
      assume "r = route_jobflow"
      with Some show ?thesis by (simp add: resolve_path.simps [of _ p] route_jobflow_def)
    next
      assume "r = route_restic"
      with Some show ?thesis by (simp add: resolve_path.simps [of _ p] route_restic_def)
    qed
  qed
  have "match_route routes p = None \<longleftrightarrow>
          map fold_case p \<notin> set (map (map fold_case)
            [''/'', ''/dashboard'', ''/dashboard/'', ''/job-flow'', ''/job-flow/'', ''/restic'', ''/restic/''])"
    by (auto simp: match_route_def find_None_iff path_matches_def route_defs)
  with none show "resolve_path routes p = Some (NoMatch p) \<longleftrightarrow>
      map fold_case p \<notin> set (map (map fold_case)
        [''/'', ''/dashboard'', ''/dashboard/'', ''/job-flow'', ''/job-flow/'', ''/restic'', ''/restic/''])"
    by simp
  show "resolve_name routes n = Inl (MatcherNotFound n) \<longleftrightarrow> n \<notin> {''Dashboard'', ''JobFlow'', ''Restic''}"
    by (auto simp: resolve_name_def route_defs)
qed

end
