(* ===== verification/Spec2Isabelle.thy ===== *)
theory Spec2Isabelle
  imports Bootstrap Api Router
begin

text \<open>
  A verification development of solo-panel, a Vue 3 dashboard for a job-flow engine and a
  restic backup engine. The program's parts and how they interact:

  \<^item> The shared polling scheduler, \<^verbatim>\<open>src/src/store/timer.ts\<close> (the Pinia store
    \<^verbatim>\<open>useGlobalTimerStore\<close>): a registry of jobs by id on one browser interval,
    started when the subscriber counter reaches 1 and stopped when it falls to 0.
    Theory \<open>GlobalTimer\<close>: the closure variables are the record \<open>timer_state\<close>
    (with the browser's live intervals, the next handle and a trace of observable
    effects); \<open>startTimer\<close>, \<open>stopTimer\<close>, \<open>registerJob\<close>, \<open>unregisterJob\<close>,
    \<open>addSubscriber\<close>, \<open>removeSubscriber\<close> and the interval callback
    (\<open>timer_callback\<close>, \<open>tick_jobs\<close>) are one definition each, with the source's
    names. The store's environment is a step function \<open>timer_step\<close> over the events
    \<open>Register\<close>, \<open>Unregister\<close>, \<open>WriteInterval\<close> (a write to the exported ref
    \<^verbatim>\<open>intervalMs\<close>) and \<open>Fire\<close> (the browser runs a live interval), with
    reachability \<open>timer_reach\<close> as an inductive predicate. The configured interval
    \<^verbatim>\<open>Number(VITE_GLOBAL_TIMER_INTERVAL) || 15000\<close> is \<open>intervalMs_of_env\<close>, on the
    ECMAScript StringToNumber of theory \<open>JsNumber\<close>.
  \<^item> The failure normalization layer, \<^verbatim>\<open>src/src/utils/http.ts\<close>: two axios
    instances, the REST one with the response interceptor
    \<^verbatim>\<open>globalErrorResponseInterceptor\<close>. Theory \<open>Http\<close>: the instances are records,
    how axios settles a request (status, timeout, network error, request not sent) is
    \<open>axios_settle\<close> (from the axios documentation), the interceptor is
    \<open>classify_error\<close> (its three branches) and \<open>globalErrorResponseInterceptor\<close>
    (the enhanced error with its cause), and \<open>axios_call\<close> composes them.
  \<^item> The REST wrappers, \<^verbatim>\<open>src/src/api/jobflow/api.ts\<close> and
    \<^verbatim>\<open>src/src/api/snapshot/api.ts\<close>, over the types of the two \<^verbatim>\<open>type.ts\<close>.
    Theory \<open>ApiTypes\<close>: every interface a record, every union a datatype, the request
    bodies as \<^verbatim>\<open>JSON.stringify\<close> makes them; since the types are erased, the
    declared \<^verbatim>\<open>Map\<close> member \<^verbatim>\<open>fieldSchemaMap\<close> holds either a \<^verbatim>\<open>Map\<close> instance
    (sent as \<open>{}\<close>) or the plain object a response decoded to (sent as it is). Theory \<open>Api\<close>: each wrapper is the
    request it builds (\<open>X_req\<close>) and the result of awaiting it (\<open>X\<close>), over a network
    that maps a request to a transport outcome; \<open>rest_data\<close> reads
    \<^verbatim>\<open>response.data.data\<close>, \<open>rest_void\<close> discards the response.
  \<^item> The route table, \<^verbatim>\<open>src/src/router/index.ts\<close>. Theory \<open>Router\<close>: the four
    records and vue-router's matcher, redirect resolution (\<open>resolve_path\<close>, a
    \<open>partial_function (option)\<close>) and resolution by name; the router instance
    \<open>router\<close> (\<^verbatim>\<open>createRouter\<close> with \<^verbatim>\<open>createWebHistory(BASE_URL)\<close>) strips
    the normalized base from the start-up location.
  \<^item> The bootstrap, \<^verbatim>\<open>src/src/main.ts\<close>, with the Pinia store registry it
    installs. Theory \<open>Bootstrap\<close>: the application is a record of its installed
    plugins, its mount point and its active Pinia; \<open>main_ts\<close> is the sequence of calls
    of the file; \<open>useGlobalTimerStore\<close> is what \<^verbatim>\<open>defineStore("globalTimer", ...)\<close>
    returns, which runs the store's setup (\<open>store_init\<close>) only at its first call
    (\<open>app_run_existing\<close>: later calls act on the one store).
  \<^item> The JavaScript runtime the code relies on: theory \<open>JsRuntime\<close> (a \<^verbatim>\<open>Map\<close> as
    an insertion-ordered association list, JSON values, truthiness, property access that
    throws on null, \<^verbatim>\<open>String()\<close>, \<^verbatim>\<open>includes\<close>) and theory \<open>JsNumber\<close>
    (\<^verbatim>\<open>Number()\<close> on strings). Theory \<open>Prelude\<close> holds the shared list and map lemmas.

  The components interact through the views, which are not in the sources: they register
  jobs that call the REST wrappers. The scheduler's properties are stated for every
  outcome of a job (completes, throws, rejects), so they hold whatever the wrappers do.

  What the lemmas show. \<open>GlobalTimer\<close>: the invariant \<open>timer_inv\<close> (counter
  non-negative, a handle held exactly when it is positive, one live interval, the held
  one, job map keyed by id with distinct keys) is kept by every event; the store refines
  the abstract scheduler \<open>sched_spec\<close> of the spec (registry by id, net count clamped at
  zero, running flag) by \<open>abs_timer\<close>, event by event; the effects of
  \<open>registerJob\<close> and of a tick, on every outcome of the job functions; the tick loop is
  equivalent to a declarative reference (\<open>tick_reference\<close>); a run creates at most one
  interval per registration; registering distinct jobs and firing \<open>k\<close> times runs each
  action \<open>1 + k\<close> times; the interval configuration on integers within the exact range
  of doubles and on blank input. \<open>Http\<close>: the message,
  status and cause of the normalized error on each branch of the interceptor, and that
  the REST instance always normalizes while the blob instance never does. \<open>Api\<close>: the
  outcome of each wrapper on every outcome of the transport, the \<open>TypeError\<close> of a null
  body included. \<open>Router\<close>: resolution returns on every path of this table, matches
  at most one record, agrees with resolution by name, resolves the same under any
  deployment base, and gives the empty match exactly off the table's paths.

  Bounds and fuel: none. Every loop of the code is structural recursion over a list
  (the jobs of a tick, the characters of a string, the events of a run); the one
  unbounded loop, vue-router's redirect chain, is a \<open>partial_function (option)\<close> and
  is proved to return on every path of this table.

  Not modelled: the views (\<^verbatim>\<open>.vue\<close> files, absent from the sources) and hence which
  jobs are registered when, and the \<^verbatim>\<open>App\<close> component \<^verbatim>\<open>main.ts\<close> mounts; the
  rendering by Naive UI; the browser's timing (when an
  interval fires is the order of the events; the delay is kept, not interpreted); calls
  of the store from inside a job function (re-entrancy); the rounding of numbers to
  doubles (\<^verbatim>\<open>Number()\<close> is exact on rationals here, so its claims are stated within
  \<open>|i| \<le> 2^53\<close>, where doubles are exact), non-ASCII white space in \<^verbatim>\<open>Number()\<close>, fractional numbers in JSON
  bodies; the query and hash of locations and the lazy loading of the views; axios internals beyond the
  documented settling of a request.
\<close>

end
